theory Spec2Isabelle
  imports Main "HOL-Library.Word"
begin

section \<open>Values, heaps and wire descriptors\<close>

text \<open>
  JavaScript values are primitives or references into a heap of objects. Arrays, buffers,
  dates, plain objects and functions all live in the heap, so that object identity and
  cyclic object graphs can be expressed. Numbers are carried opaquely by the protocol;
  they are represented by integers.
\<close>

type_synonym addr = nat
type_synonym byte = "8 word"

datatype prim = Undefined | Null | Bool bool | Num int | Str string

datatype jsval = Prim prim | Ref addr

text \<open>Errors raised by the client-side code (\<open>throw new TypeError(...)\<close>).\<close>

datatype exn = TypeError string

text \<open>
  Modelled from the spec: \<open>common/buffer-utils\<close> is not part of the sources. The spec
  describes the \<open>buffer\<close> payload as a pass-by-value byte block with an exact
  byte-for-byte round trip, so both helpers carry the bytes unchanged.
\<close>

definition bufferToMeta :: "byte list \<Rightarrow> byte list" where
  "bufferToMeta bs = bs"

definition metaToBuffer :: "byte list \<Rightarrow> byte list" where
  "metaToBuffer bs = bs"

text \<open>Decimal rendering of numbers inside template strings.\<close>

definition digit_char :: "nat \<Rightarrow> char" where
  "digit_char d = ''0123456789'' ! d"

fun show_nat :: "nat \<Rightarrow> string" where
  "show_nat n = (if n < 10 then [digit_char n] else show_nat (n div 10) @ [digit_char (n mod 10)])"

declare show_nat.simps [simp del]

definition show_int :: "int \<Rightarrow> string" where
  "show_int i = (if i < 0 then CHR ''-'' # show_nat (nat (- i)) else show_nat (nat i))"

text \<open>
  String conversion as performed by a template literal. A primitive has a fixed text.
  An object is rendered here by the default text; in the browser, where the text of an
  object is made by code of the host, \<open>to_text\<close> is used instead.
\<close>

fun to_string :: "jsval \<Rightarrow> string" where
  "to_string (Prim Undefined) = ''undefined''"
| "to_string (Prim Null) = ''null''"
| "to_string (Prim (Bool b)) = (if b then ''true'' else ''false'')"
| "to_string (Prim (Num i)) = show_int i"
| "to_string (Prim (Str s)) = s"
| "to_string (Ref a) = ''[object Object]''"

text \<open>A text between single quotes, as in the messages of errors.\<close>

definition quoted :: "string \<Rightarrow> string" where
  "quoted s = CHR 0x27 # s @ [CHR 0x27]"

text \<open>
  Descriptors sent from the client to the server (arguments), as built by \<open>wrapArgs\<close>
  in \<open>lazy-object.js\<close> and consumed by \<open>unwrapArgs\<close> in \<open>rpc-server.js\<close>.
  \<open>AFunction\<close> is the literal tag \<open>function\<close>; \<open>AUnknown\<close> is any other tag.
\<close>

datatype ameta =
    AValue prim
  | ARemoteObject nat
  | AArray "ameta list"
  | ABuffer "byte list"
  | ADate int
  | APromise ameta
  | AObject string "(string \<times> ameta) list"
  | AFunctionWithReturnValue ameta
  | AFunction
  | AUnknown string

text \<open>
  Member descriptors and prototype descriptors, as built by \<open>getObjectMembers\<close> and
  \<open>getObjectPrototype\<close>; \<open>mtype\<close> is \<open>method\<close> or \<open>get\<close>.
\<close>

record memberdesc =
  mname :: string
  menumerable :: bool
  mwritable :: bool
  mtype :: string

datatype protodesc = ProtoDesc "memberdesc list" "protodesc option"

text \<open>
  Descriptors sent from the server to the client (results), as built by \<open>valueToMeta\<close>
  and \<open>exceptionToMeta\<close> in \<open>rpc-server.js\<close>. \<open>RObject\<close> and \<open>RFunction\<close> carry
  the constructor name, the handle id, the members and the prototype.
\<close>

datatype rmeta =
    RValue jsval
  | RArray "rmeta list"
  | RBuffer "byte list"
  | RDate int
  | RPromise rmeta
  | RError "(string \<times> jsval) list"
  | RObject string nat "memberdesc list" "protodesc option"
  | RFunction string nat "memberdesc list" "protodesc option"
  | RException jsval jsval rmeta

text \<open>One step of a command chain: a JavaScript object with optional fields.\<close>

record command =
  ctype :: string
  cname :: "string option"
  cid :: "nat option"
  cmodule :: "string option"
  cargs :: "ameta list option"
  cvalue :: "ameta list option"

definition mk_command :: "string \<Rightarrow> command" where
  "mk_command t = \<lparr>ctype = t, cname = None, cid = None, cmodule = None,
                    cargs = None, cvalue = None\<rparr>"

text \<open>
  The constructor an object resolves through \<open>value.constructor\<close>: none, the built-in
  \<open>Object\<close> (whose \<open>name\<close> the decoders overwrite, so it is read from the state), or
  another constructor with a fixed name.
\<close>

datatype ctor = NoCtor | ObjectCtor | NamedCtor string

fun ctor_name :: "string \<Rightarrow> ctor \<Rightarrow> string" where
  "ctor_name objname NoCtor = []"
| "ctor_name objname ObjectCtor = objname"
| "ctor_name objname (NamedCtor n) = n"

section \<open>Client side: argument encoder (lazy-object.js, wrapArgs)\<close>

text \<open>
  Objects of the renderer process.
  \<^item> \<open>CObject c props\<close>: a local non-array object, its constructor and the properties
    that \<open>for ... in\<close> enumerates, in order;
  \<^item> \<open>CRemote id own protos\<close>: a shell built by \<open>metaToValue\<close> for a remote object, with
    the hidden value \<open>atomId\<close> and the members installed on it and on its prototypes;
  \<^item> \<open>CFunction rv\<close>: a callable; \<open>rv\<close> is \<open>Some v\<close> when the hidden value
    \<open>returnValue\<close> is set, and then calling the function returns \<open>v\<close>;
  \<^item> \<open>CLazy cmds\<close>: the proxy returned by \<open>new LazyObject\<close> (a callable) with its
    pending commands;
  \<^item> \<open>CError props\<close>: an error object built by \<open>metaToPlainObject\<close> with the
    members assigned to it; all of them but \<open>stack\<close> are enumerable.
\<close>

datatype ccell =
    CArray "jsval list"
  | CBuffer "byte list"
  | CDate int
  | CPromise
  | CObject ctor "(string \<times> jsval) list"
  | CRemote nat "memberdesc list" "memberdesc list list"
  | CError "(string \<times> jsval) list"
  | CFunction "jsval option"
  | CLazy "command list"

text \<open>
  The state of the renderer: the heap with the next free address, \<open>remoteObjectCache\<close>,
  the current \<open>name\<close> of \<open>Object\<close>, and the command chains handed to
  \<open>ipcRenderer.sendSync\<close> so far, oldest first.
\<close>

record cstate =
  cheap :: "addr \<Rightarrow> ccell"
  cnext :: addr
  cache :: "nat \<rightharpoonup> addr"
  cobjname :: string
  csent :: "command list list"

definition unsupported_function :: exn where
  "unsupported_function = TypeError ''Unsupported type: function''"

text \<open>
  The properties \<open>for ... in\<close> finds on a remote shell: the enumerable members of the
  object, then those of each prototype that no nearer level defines.
\<close>

fun enum_members :: "string list \<Rightarrow> memberdesc list list \<Rightarrow> memberdesc list" where
  "enum_members seen [] = []"
| "enum_members seen (ms # rest) =
     filter (\<lambda>m. menumerable m \<and> mname m \<notin> set seen) ms
       @ enum_members (seen @ map mname ms) rest"

text \<open>
  Reading a member of a remote shell: \<open>method\<close> and \<open>get\<close> members are accessors that
  return a new \<open>LazyObject\<close> (a callable without \<open>returnValue\<close>); any other member is a
  data property without a value.
\<close>

fun wrapRemoteMembers :: "memberdesc list \<Rightarrow> exn + (string \<times> ameta) list" where
  "wrapRemoteMembers [] = Inr []"
| "wrapRemoteMembers (m # ms) =
     (if mtype m = ''method'' \<or> mtype m = ''get'' then Inl unsupported_function
      else case wrapRemoteMembers ms of
        Inl e \<Rightarrow> Inl e
      | Inr r \<Rightarrow> Inr ((mname m, AValue Undefined) # r))"

text \<open>
  \<open>wrapArgs\<close> and its inner \<open>valueToMeta\<close>. The first argument bounds the nesting depth
  of the recursion: \<open>None\<close> means that the bound was reached. The set \<open>visited\<close> holds
  the arrays and objects on the current path (added before and deleted after the walk
  of their elements). The \<open>then\<close> closure made for a promise is a callable without
  \<open>returnValue\<close>, so its encoding throws. A remote shell whose \<open>atomId\<close> is 0 is
  walked like a local object: the hidden value is falsy.
\<close>

fun valueToMeta_c :: "nat \<Rightarrow> cstate \<Rightarrow> addr set \<Rightarrow> jsval \<Rightarrow> (exn + ameta) option"
and wrapArgs :: "nat \<Rightarrow> cstate \<Rightarrow> addr set \<Rightarrow> jsval list \<Rightarrow> (exn + ameta list) option"
and wrapMembers :: "nat \<Rightarrow> cstate \<Rightarrow> addr set \<Rightarrow> (string \<times> jsval) list
                      \<Rightarrow> (exn + (string \<times> ameta) list) option"
where
  "valueToMeta_c 0 s visited v = None"
| "valueToMeta_c (Suc n) s visited (Prim p) = Some (Inr (AValue p))"
| "valueToMeta_c (Suc n) s visited (Ref a) =
     (if a \<in> visited then Some (Inr (AValue Null))
      else case cheap s a of
        CArray els \<Rightarrow>
          (case wrapArgs n s (insert a visited) els of
             None \<Rightarrow> None
           | Some (Inl e) \<Rightarrow> Some (Inl e)
           | Some (Inr ms) \<Rightarrow> Some (Inr (AArray ms)))
      | CBuffer bs \<Rightarrow> Some (Inr (ABuffer (bufferToMeta bs)))
      | CDate t \<Rightarrow> Some (Inr (ADate t))
      | CPromise \<Rightarrow> Some (Inl unsupported_function)
      | CObject c props \<Rightarrow>
          (case wrapMembers n s (insert a visited) props of
             None \<Rightarrow> None
           | Some (Inl e) \<Rightarrow> Some (Inl e)
           | Some (Inr ms) \<Rightarrow> Some (Inr (AObject (ctor_name (cobjname s) c) ms)))
      | CRemote i own protos \<Rightarrow>
          (if i \<noteq> 0 then Some (Inr (ARemoteObject i))
           else case wrapRemoteMembers (enum_members [] (own # protos)) of
             Inl e \<Rightarrow> Some (Inl e)
           | Inr ms \<Rightarrow> Some (Inr (AObject (cobjname s) ms)))
      | CError props \<Rightarrow>
          (case wrapMembers n s (insert a visited)
                  (filter (\<lambda>(k, v). k \<noteq> ''stack'') props) of
             None \<Rightarrow> None
           | Some (Inl e) \<Rightarrow> Some (Inl e)
           | Some (Inr ms) \<Rightarrow> Some (Inr (AObject ''Error'' ms)))
      | CFunction (Some rv) \<Rightarrow>
          (case valueToMeta_c n s visited rv of
             None \<Rightarrow> None
           | Some (Inl e) \<Rightarrow> Some (Inl e)
           | Some (Inr m) \<Rightarrow> Some (Inr (AFunctionWithReturnValue m)))
      | CFunction None \<Rightarrow> Some (Inl unsupported_function)
      | CLazy cmds \<Rightarrow> Some (Inl unsupported_function))"
| "wrapArgs n s visited [] = Some (Inr [])"
| "wrapArgs n s visited (x # xs) =
     (case valueToMeta_c n s visited x of
        None \<Rightarrow> None
      | Some (Inl e) \<Rightarrow> Some (Inl e)
      | Some (Inr m) \<Rightarrow>
          (case wrapArgs n s visited xs of
             None \<Rightarrow> None
           | Some (Inl e) \<Rightarrow> Some (Inl e)
           | Some (Inr ms) \<Rightarrow> Some (Inr (m # ms))))"
| "wrapMembers n s visited [] = Some (Inr [])"
| "wrapMembers n s visited ((k, x) # xs) =
     (case valueToMeta_c n s visited x of
        None \<Rightarrow> None
      | Some (Inl e) \<Rightarrow> Some (Inl e)
      | Some (Inr m) \<Rightarrow>
          (case wrapMembers n s visited xs of
             None \<Rightarrow> None
           | Some (Inl e) \<Rightarrow> Some (Inl e)
           | Some (Inr ms) \<Rightarrow> Some (Inr ((k, m) # ms))))"

section \<open>Client side: result materializer (lazy-object.js, metaToValue)\<close>

definition calloc :: "ccell \<Rightarrow> cstate \<Rightarrow> addr \<times> cstate" where
  "calloc c s = (cnext s, s\<lparr>cheap := (cheap s)(cnext s := c), cnext := Suc (cnext s)\<rparr>)"

text \<open>\<open>new LazyObject(cmd)\<close>: a new proxy whose command list is \<open>[cmd]\<close>.\<close>

definition new_LazyObject :: "command \<Rightarrow> cstate \<Rightarrow> addr \<times> cstate" where
  "new_LazyObject cmd s = calloc (CLazy [cmd]) s"

text \<open>
  Errors in the renderer: a \<open>TypeError\<close> of its own code, or the error that
  \<open>metaToException\<close> builds from an \<open>exception\<close> descriptor, with its message and
  its cause.
\<close>

datatype cexn = ClientError exn | RemoteException string jsval

text \<open>
  \<open>setObjectMembers\<close>: the arguments are the handle id, the members the object
  already has, and the descriptors. The test \<open>object.hasOwnProperty(member.name)\<close>
  finds \<open>hasOwnProperty\<close> on the object itself. While no member of that name is
  installed, it is the built-in, and a member whose name the object already owns is
  skipped. Once a \<open>method\<close> or \<open>get\<close> member called \<open>hasOwnProperty\<close> is
  installed, the test reads that accessor and calls the new \<open>LazyObject\<close> it gives:
  the call turns the command of the proxy into a \<open>remote_object_call\<close> with the
  encoded name and returns the proxy, which is truthy, so every later member is
  skipped. When the installed member has another type, the property holds
  \<open>undefined\<close> and the call is a \<open>TypeError\<close>.
\<close>

fun setObjectMembers :: "nat \<Rightarrow> memberdesc list \<Rightarrow> memberdesc list \<Rightarrow> cstate
                           \<Rightarrow> (cexn + memberdesc list) \<times> cstate" where
  "setObjectMembers metaId object [] s = (Inr object, s)"
| "setObjectMembers metaId object (d # members) s =
     (case find (\<lambda>m. mname m = ''hasOwnProperty'') object of
        None \<Rightarrow>
          (if mname d \<in> set (map mname object)
           then setObjectMembers metaId object members s
           else setObjectMembers metaId (object @ [d]) members s)
      | Some m \<Rightarrow>
          (if mtype m = ''method'' \<or> mtype m = ''get''
           then (let (l, s') = calloc (CLazy [(mk_command ''remote_object_call'')
                                               \<lparr>cname := Some ''hasOwnProperty'',
                                                cid := Some metaId,
                                                cargs := Some [AValue (Str (mname d))]\<rparr>]) s
                 in setObjectMembers metaId object members s')
           else (Inl (ClientError (TypeError ''object.hasOwnProperty is not a function'')), s)))"

fun setObjectPrototype :: "nat \<Rightarrow> protodesc option \<Rightarrow> cstate
                             \<Rightarrow> (cexn + memberdesc list list) \<times> cstate" where
  "setObjectPrototype metaId None s = (Inr [], s)"
| "setObjectPrototype metaId (Some (ProtoDesc ms p)) s =
     (case setObjectMembers metaId [] ms s of
        (Inl e, s') \<Rightarrow> (Inl e, s')
      | (Inr proto, s') \<Rightarrow>
          (case setObjectPrototype metaId p s' of
             (Inl e, s'') \<Rightarrow> (Inl e, s'')
           | (Inr rest, s'') \<Rightarrow> (Inr (proto # rest), s'')))"

text \<open>
  \<open>metaToPlainObject\<close> for an \<open>error\<close> descriptor: \<open>obj[name] = value\<close> on a new
  \<open>Error\<close>, for each member in order. A later member of the same name replaces the
  value of the earlier one and keeps its place. A member called \<open>__proto__\<close> goes to
  the prototype setter and makes no property; the prototype of the error is taken to
  stay \<open>Error.prototype\<close>.
\<close>

fun assign_plain :: "(string \<times> jsval) list \<Rightarrow> string \<Rightarrow> jsval \<Rightarrow> (string \<times> jsval) list" where
  "assign_plain [] n v = [(n, v)]"
| "assign_plain ((k, w) # ps) n v =
     (if k = n then (k, v) # ps else (k, w) # assign_plain ps n v)"

definition metaToPlainObject :: "(string \<times> jsval) list \<Rightarrow> (string \<times> jsval) list" where
  "metaToPlainObject members =
     foldl (\<lambda>ps (n, v). if n = ''__proto__'' then ps else assign_plain ps n v) [] members"

text \<open>
  \<open>metaToValue\<close>. An \<open>exception\<close> descriptor throws the error built by
  \<open>metaToException\<close>: its message joins the descriptor's message and stack, its cause
  is the decoded cause. The module has no \<open>process\<close> export, so \<open>from\<close> is null.

  For an \<open>object\<close> descriptor that is not in the cache, \<open>ret.constructor\<close> is read
  after the members are installed. Without a member called \<open>constructor\<close> it is
  \<open>Object\<close>, whose \<open>name\<close> is overwritten. With such a member it is what the
  installed property gives: for a \<open>method\<close> or \<open>get\<close> member a new \<open>LazyObject\<close>,
  which takes the name and leaves \<open>Object\<close> alone; for any other member
  \<open>undefined\<close>, on which \<open>Object.defineProperty\<close> throws.
\<close>

fun metaToValue_c :: "rmeta \<Rightarrow> cstate \<Rightarrow> (cexn + jsval) \<times> cstate"
and metaToValues_c :: "rmeta list \<Rightarrow> cstate \<Rightarrow> (cexn + jsval list) \<times> cstate"
where
  "metaToValue_c (RValue v) s = (Inr v, s)"
| "metaToValue_c (RArray members) s =
     (case metaToValues_c members s of
        (Inl e, s') \<Rightarrow> (Inl e, s')
      | (Inr vs, s') \<Rightarrow> (let (a, s'') = calloc (CArray vs) s' in (Inr (Ref a), s'')))"
| "metaToValue_c (RBuffer bs) s =
     (let (a, s') = calloc (CBuffer (metaToBuffer bs)) s in (Inr (Ref a), s'))"
| "metaToValue_c (RPromise t) s =
     (case metaToValue_c t s of
        (Inl e, s') \<Rightarrow> (Inl e, s')
      | (Inr f, s') \<Rightarrow>
          (let (b, s'') = calloc (CObject ObjectCtor [(''then'', f)]) s';
               (a, s3) = calloc CPromise s''
           in (Inr (Ref a), s3)))"
| "metaToValue_c (RError members) s =
     (let (a, s') = calloc (CError (metaToPlainObject members)) s in (Inr (Ref a), s'))"
| "metaToValue_c (RDate t) s =
     (let (a, s') = calloc (CDate t) s in (Inr (Ref a), s'))"
| "metaToValue_c (RException message stack cause) s =
     (case metaToValue_c cause s of
        (Inl e, s') \<Rightarrow> (Inl e, s')
      | (Inr c, s') \<Rightarrow>
          (Inl (RemoteException (to_string message @ [CHR 0x0A] @ to_string stack) c), s'))"
| "metaToValue_c (RObject name i members proto) s =
     (case cache s i of
        Some a \<Rightarrow> (Inr (Ref a), s)
      | None \<Rightarrow>
          (case setObjectMembers i [] members s of
             (Inl e, s1) \<Rightarrow> (Inl e, s1)
           | (Inr own, s1) \<Rightarrow>
               (case setObjectPrototype i proto s1 of
                  (Inl e, s2) \<Rightarrow> (Inl e, s2)
                | (Inr protos, s2) \<Rightarrow>
                    (let (a, s') = calloc (CRemote i own protos) s2
                     in case find (\<lambda>m. mname m = ''constructor'') (concat (own # protos)) of
                          None \<Rightarrow>
                            (Inr (Ref a), s'\<lparr>cobjname := name, cache := (cache s')(i \<mapsto> a)\<rparr>)
                        | Some m \<Rightarrow>
                            (if mtype m = ''method'' \<or> mtype m = ''get''
                             then (let (l, s'') = new_LazyObject
                                          ((mk_command ''remote_object_get'')
                                             \<lparr>cname := Some ''constructor'', cid := Some i\<rparr>) s'
                                   in (Inr (Ref a), s''\<lparr>cache := (cache s'')(i \<mapsto> a)\<rparr>))
                             else (Inl (ClientError
                                     (TypeError ''Object.defineProperty called on non-object'')),
                                   s'))))))"
| "metaToValue_c (RFunction name i members proto) s =
     (case cache s i of
        Some a \<Rightarrow> (Inr (Ref a), s)
      | None \<Rightarrow>
          (let (a, s') = new_LazyObject ((mk_command ''function_call'')\<lparr>cid := Some i\<rparr>) s
           in (Inr (Ref a), s')))"
| "metaToValues_c [] s = (Inr [], s)"
| "metaToValues_c (m # ms) s =
     (case metaToValue_c m s of
        (Inl e, s') \<Rightarrow> (Inl e, s')
      | (Inr v, s') \<Rightarrow>
          (case metaToValues_c ms s' of
             (Inl e, s'') \<Rightarrow> (Inl e, s'')
           | (Inr vs, s'') \<Rightarrow> (Inr (v # vs), s'')))"

section \<open>Client side: the command builder (lazy-object.js, class LazyObject)\<close>

text \<open>
  \<open>commit\<close>: the commands are handed to \<open>ipcRenderer.sendSync\<close>, which is recorded in
  \<open>csent\<close>, and the reply of the channel (\<open>send\<close>) is decoded.
\<close>

definition commit :: "(command list \<Rightarrow> rmeta) \<Rightarrow> command list \<Rightarrow> cstate
                        \<Rightarrow> (cexn + jsval) \<times> cstate" where
  "commit send commands s =
     metaToValue_c (send commands) (s\<lparr>csent := csent s @ [commands]\<rparr>)"

text \<open>
  The traps of the proxy act on \<open>this.commands\<close>. The constructor starts the list with
  one command and the traps only push, so the list is never empty; reading \<open>last.type\<close>
  on an empty list would be a \<open>TypeError\<close>.

  The \<open>get\<close> trap: reading the property \<open>$\<close> commits and gives the outcome of the
  commit (first component \<open>Some\<close>); reading any other property pushes a \<open>member_get\<close>
  step and gives the proxy itself (first component \<open>None\<close>). The second component is
  the command list after the trap.
\<close>

definition get_trap :: "(command list \<Rightarrow> rmeta) \<Rightarrow> command list \<Rightarrow> string \<Rightarrow> cstate
                          \<Rightarrow> (cexn + jsval) option \<times> command list \<times> cstate" where
  "get_trap send commands prop s =
     (if prop = ''$'' then (let (r, s') = commit send commands s in (Some r, commands, s'))
      else (None, commands @ [(mk_command ''member_get'')\<lparr>cname := Some prop\<rparr>], s))"

definition last_type_error :: exn where
  "last_type_error = TypeError (''Cannot read property '' @ quoted ''type'' @ '' of undefined'')"

definition apply_trap :: "nat \<Rightarrow> cstate \<Rightarrow> command list \<Rightarrow> jsval list
                            \<Rightarrow> (exn + command list) option" where
  "apply_trap n s commands args =
     (case wrapArgs n s {} args of
        None \<Rightarrow> None
      | Some (Inl e) \<Rightarrow> Some (Inl e)
      | Some (Inr ms) \<Rightarrow>
          (if commands = [] then Some (Inl last_type_error)
           else let i = length commands - 1; lst = commands ! i in
             if ctype lst = ''member_get'' then
               Some (Inr (commands[i := lst\<lparr>cargs := Some ms, ctype := ''member_call''\<rparr>]))
             else if ctype lst = ''remote_object_get'' then
               Some (Inr (commands[i := lst\<lparr>cargs := Some ms, ctype := ''remote_object_call''\<rparr>]))
             else
               Some (Inr (commands @ [(mk_command ''function_call'')\<lparr>cargs := Some ms\<rparr>]))))"

definition construct_trap :: "nat \<Rightarrow> cstate \<Rightarrow> command list \<Rightarrow> jsval list
                                \<Rightarrow> (exn + command list) option" where
  "construct_trap n s commands args =
     (case wrapArgs n s {} args of
        None \<Rightarrow> None
      | Some (Inl e) \<Rightarrow> Some (Inl e)
      | Some (Inr ms) \<Rightarrow>
          (if commands = [] then Some (Inl last_type_error)
           else let i = length commands - 1; lst = commands ! i in
             if ctype lst = ''function_call'' then
               Some (Inr (commands[i := lst\<lparr>cargs := Some ms, ctype := ''constructor_call''\<rparr>]))
             else if ctype lst = ''member_get'' then
               Some (Inr (commands[i := lst\<lparr>cargs := Some ms, ctype := ''member_constructor''\<rparr>]))
             else if ctype lst = ''remote_object_get'' then
               Some (Inr (commands[i := lst\<lparr>cargs := Some ms,
                                               ctype := ''remote_object_constructor''\<rparr>]))
             else
               Some (Inr (commands @ [(mk_command ''constructor_call'')\<lparr>cargs := Some ms\<rparr>]))))"

text \<open>
  The \<open>set\<close> trap encodes the value, pushes a \<open>member_set\<close> step and commits at once.
  The result is the new command list with the outcome of the commit.
\<close>

definition set_trap :: "nat \<Rightarrow> (command list \<Rightarrow> rmeta) \<Rightarrow> command list \<Rightarrow> string \<Rightarrow> jsval
                          \<Rightarrow> cstate \<Rightarrow> (exn + command list \<times> (cexn + jsval) \<times> cstate) option" where
  "set_trap n send commands prop v s =
     (case wrapArgs n s {} [v] of
        None \<Rightarrow> None
      | Some (Inl e) \<Rightarrow> Some (Inl e)
      | Some (Inr ms) \<Rightarrow>
          (let commands' = commands @ [(mk_command ''member_set'')\<lparr>cname := Some prop,
                                                                     cvalue := Some ms\<rparr>]
           in Some (Inr (commands', commit send commands' s))))"

text \<open>
  A live callable in the renderer without the hidden value \<open>returnValue\<close>: a function,
  or the proxy of a \<open>LazyObject\<close>.
\<close>

definition is_live_callable :: "ccell \<Rightarrow> bool" where
  "is_live_callable c = (case c of CFunction None \<Rightarrow> True | CLazy cmds \<Rightarrow> True | _ \<Rightarrow> False)"

text \<open>
  The cells whose elements \<open>wrapArgs\<close> walks with the cell added to \<open>visited\<close>, and
  the functions that carry the hidden value \<open>returnValue\<close>.
\<close>

definition is_walked :: "ccell \<Rightarrow> bool" where
  "is_walked c = (case c of CArray els \<Rightarrow> True | CObject k ps \<Rightarrow> True | CError ps \<Rightarrow> True
                  | _ \<Rightarrow> False)"

definition has_returnValue :: "ccell \<Rightarrow> bool" where
  "has_returnValue c = (case c of CFunction (Some rv) \<Rightarrow> True | _ \<Rightarrow> False)"

section \<open>Server side: objects, registry and property access (rpc-server.js)\<close>

text \<open>
  Objects of the browser process. An object has a kind, its own properties with their
  descriptors (in the order of \<open>Object.getOwnPropertyNames\<close>), the own properties of
  each object on its prototype chain up to and excluding \<open>Object.prototype\<close> (with a
  flag telling whether that prototype is callable), its constructor and the hidden
  values \<open>simple\<close> and \<open>asynchronous\<close>. A property with \<open>pget\<close> or \<open>pset\<close> is an
  accessor: its getter and setter are code of the host program, and \<open>pvalue\<close> is not
  used for it. The elements and the \<open>length\<close> of an array or buffer are held by the
  kind, not listed as properties. Every prototype chain ends in \<open>Object.prototype\<close>,
  and \<open>Object.prototype\<close> and \<open>Function.prototype\<close> carry their standard members
  only.

  Kinds of callables: \<open>KFunction\<close> is a function of the host program; \<open>KBound f t\<close>
  is \<open>f.bind(t)\<close>; \<open>KReturns v\<close> is the function \<open>unwrapArgs\<close> builds for
  \<open>function-with-return-value\<close>; \<open>KThen p\<close> is the closure \<open>valueToMeta\<close> builds for
  the promise \<open>p\<close>; \<open>KReply\<close> is the callback \<open>callFunction\<close> appends for an
  asynchronous function.
\<close>

record sprop =
  pname :: string
  pvalue :: jsval
  penumerable :: bool
  pwritable :: bool
  pget :: bool
  pset :: bool

datatype skind =
    KPlain
  | KArray "jsval list"
  | KBuffer "byte list"
  | KDate int
  | KError
  | KPromise
  | KFunction
  | KBound addr jsval
  | KReturns jsval
  | KThen addr
  | KReply

record sobject =
  kind :: skind
  own :: "sprop list"
  protos :: "(bool \<times> sprop list) list"
  octor :: ctor
  simple :: bool
  asynchronous :: bool

record sstate =
  sheap :: "addr \<Rightarrow> sobject"
  snext :: addr
  reg_entries :: "(nat \<times> addr) list"
  reg_last :: nat
  sobjname :: string

definition salloc :: "sobject \<Rightarrow> sstate \<Rightarrow> addr \<times> sstate" where
  "salloc ob st = (snext st, st\<lparr>sheap := (sheap st)(snext st := ob), snext := Suc (snext st)\<rparr>)"

definition data_prop :: "string \<Rightarrow> jsval \<Rightarrow> bool \<Rightarrow> sprop" where
  "data_prop n v e = \<lparr>pname = n, pvalue = v, penumerable = e, pwritable = True,
                       pget = False, pset = False\<rparr>"

definition plain_object :: "skind \<Rightarrow> sprop list \<Rightarrow> ctor \<Rightarrow> sobject" where
  "plain_object k ps c = \<lparr>kind = k, own = ps, protos = [], octor = c,
                           simple = False, asynchronous = False\<rparr>"

text \<open>
  Modelled from the spec: \<open>objects-registry\<close> is not part of the sources. The spec gives
  \<open>allocate(session, object) -> id\<close>, which yields the same id for the same object
  within a session, and \<open>resolve(session, id) -> object | not-found\<close>; the command
  handler tests the result of \<open>get\<close> with \<open>== null\<close>, so not-found is \<open>undefined\<close>.
\<close>

definition registry_get :: "sstate \<Rightarrow> nat option \<Rightarrow> jsval" where
  "registry_get st i =
     (case i of
        None \<Rightarrow> Prim Undefined
      | Some k \<Rightarrow> (case map_of (reg_entries st) k of
                     None \<Rightarrow> Prim Undefined
                   | Some a \<Rightarrow> Ref a))"

definition registry_add :: "sstate \<Rightarrow> addr \<Rightarrow> nat \<times> sstate" where
  "registry_add st a =
     (case find (\<lambda>(k, b). b = a) (reg_entries st) of
        Some (k, b) \<Rightarrow> (k, st)
      | None \<Rightarrow>
          (let k = Suc (reg_last st)
           in (k, st\<lparr>reg_entries := (k, a) # reg_entries st, reg_last := k\<rparr>)))"

text \<open>
  \<open>new Error(message)\<close> and \<open>new TypeError(message)\<close>: \<open>message\<close> and \<open>stack\<close> are
  own, non-enumerable properties; \<open>name\<close> is inherited. The stack text starts with
  the header line \<open>name: message\<close>; the frames that follow are left out.
\<close>

definition error_object :: "string \<Rightarrow> string \<Rightarrow> sobject" where
  "error_object name message =
     \<lparr>kind = KError,
      own = [data_prop ''stack'' (Prim (Str (name @ '': '' @ message))) False,
             data_prop ''message'' (Prim (Str message)) False],
      protos = [(False, [data_prop ''name'' (Prim (Str name)) False])],
      octor = NamedCtor name, simple = False, asynchronous = False\<rparr>"

definition new_error :: "string \<Rightarrow> string \<Rightarrow> sstate \<Rightarrow> addr \<times> sstate" where
  "new_error name message st = salloc (error_object name message) st"

definition throw_TypeError :: "string \<Rightarrow> sstate \<Rightarrow> (jsval + 'a) \<times> sstate" where
  "throw_TypeError message st = (let (a, st') = new_error ''TypeError'' message st
                                 in (Inl (Ref a), st'))"

text \<open>\<open>throwRPCError\<close>: an \<open>Error\<close> with \<open>code\<close> and \<open>errno\<close> set.\<close>

definition rpc_error_object :: "string \<Rightarrow> sobject" where
  "rpc_error_object message =
     (error_object ''Error'' message)
       \<lparr>own := own (error_object ''Error'' message)
                @ [data_prop ''code'' (Prim (Str ''EBADRPC'')) True,
                   data_prop ''errno'' (Prim (Num (- 72))) True]\<rparr>"

definition throwRPCError :: "string \<Rightarrow> sstate \<Rightarrow> (jsval + 'a) \<times> sstate" where
  "throwRPCError message st = (let (a, st') = salloc (rpc_error_object message) st
                               in (Inl (Ref a), st'))"

definition throw_RangeError :: "string \<Rightarrow> sstate \<Rightarrow> (jsval + 'a) \<times> sstate" where
  "throw_RangeError message st = (let (a, st') = new_error ''RangeError'' message st
                                  in (Inl (Ref a), st'))"

fun is_callable_kind :: "skind \<Rightarrow> bool" where
  "is_callable_kind KFunction = True"
| "is_callable_kind (KBound f t) = True"
| "is_callable_kind (KReturns v) = True"
| "is_callable_kind (KThen p) = True"
| "is_callable_kind KReply = True"
| "is_callable_kind k = False"

text \<open>
  What the host program provides: the behaviour of its functions when applied and when
  constructed, of the getters and setters of its accessor properties (given the object
  the property is read or written on and the name), the standard members of
  \<open>Object.prototype\<close> and \<open>Function.prototype\<close>, the members that the wrapper
  prototypes give to a primitive, the text that string conversion gives for an object, the
  module table of \<open>electron\<close>, the global object
  and its members, the sender of the event with its owner window, and
  \<open>process.mainModule.require\<close>. Code of the host may throw any value (\<open>Inl\<close>) and
  may change the state.
\<close>

record host =
  h_apply :: "addr \<Rightarrow> jsval \<Rightarrow> jsval list \<Rightarrow> sstate \<Rightarrow> (jsval + jsval) \<times> sstate"
  h_construct :: "addr \<Rightarrow> jsval list \<Rightarrow> sstate \<Rightarrow> (jsval + jsval) \<times> sstate"
  h_getter :: "addr \<Rightarrow> string \<Rightarrow> sstate \<Rightarrow> (jsval + jsval) \<times> sstate"
  h_setter :: "addr \<Rightarrow> string \<Rightarrow> jsval \<Rightarrow> sstate \<Rightarrow> (jsval + unit) \<times> sstate"
  h_object_prototype :: "string \<Rightarrow> jsval"
  h_function_prototype :: "string \<Rightarrow> jsval"
  h_primitive_member :: "prim \<Rightarrow> string \<Rightarrow> jsval"
  h_to_string :: "addr \<Rightarrow> sstate \<Rightarrow> (jsval + string) \<times> sstate"
  h_builtin :: "string option \<Rightarrow> jsval"
  h_global :: "string option \<Rightarrow> jsval"
  h_global_object :: jsval
  h_window :: "sstate \<Rightarrow> (jsval + jsval) \<times> sstate"
  h_sender :: jsval
  h_require :: "string option \<Rightarrow> sstate \<Rightarrow> (jsval + jsval) \<times> sstate"

text \<open>
  Property lookup in the listed properties: own properties first, then the prototype
  chain. \<open>read_prop\<close> is the value stored for the property found.
\<close>

definition find_prop :: "sobject \<Rightarrow> string \<Rightarrow> sprop option" where
  "find_prop ob n = find (\<lambda>p. pname p = n) (own ob @ concat (map snd (protos ob)))"

definition read_prop :: "sobject \<Rightarrow> string \<Rightarrow> jsval" where
  "read_prop ob n = (case find_prop ob n of None \<Rightarrow> Prim Undefined | Some p \<Rightarrow> pvalue p)"

text \<open>
  Array indices: a property name is an index when it is the decimal text of a number.
  \<open>indexed_member\<close> reads \<open>length\<close> and the elements of an indexed value.
\<close>

fun parse_nat :: "string \<Rightarrow> nat \<Rightarrow> nat option" where
  "parse_nat [] acc = Some acc"
| "parse_nat (c # cs) acc =
     (case map_of (zip ''0123456789'' [0 ..< 10]) c of
        None \<Rightarrow> None
      | Some d \<Rightarrow> parse_nat cs (10 * acc + d))"

definition array_index :: "string \<Rightarrow> nat option" where
  "array_index n =
     (if n = [] then None
      else case parse_nat n 0 of
        None \<Rightarrow> None
      | Some k \<Rightarrow> (if show_nat k = n \<and> k < 2 ^ 32 - 1 then Some k else None))"

definition indexed_member :: "jsval list \<Rightarrow> string \<Rightarrow> jsval option" where
  "indexed_member els n =
     (if n = ''length'' then Some (Prim (Num (int (length els))))
      else case array_index n of
        None \<Rightarrow> None
      | Some k \<Rightarrow> (if k < length els then Some (els ! k) else None))"

definition exotic_member :: "skind \<Rightarrow> string \<Rightarrow> jsval option" where
  "exotic_member k n =
     (case k of
        KArray els \<Rightarrow> indexed_member els n
      | KBuffer bs \<Rightarrow> indexed_member (map (\<lambda>b. Prim (Num (uint b))) bs) n
      | _ \<Rightarrow> None)"

definition FUNCTION_PROTOTYPE_NAMES :: "string list" where
  "FUNCTION_PROTOTYPE_NAMES =
     [''length'', ''name'', ''arguments'', ''caller'', ''constructor'', ''apply'', ''bind'',
      ''call'', ''toString'']"

definition OBJECT_PROTOTYPE_NAMES :: "string list" where
  "OBJECT_PROTOTYPE_NAMES =
     [''constructor'', ''__defineGetter__'', ''__defineSetter__'', ''hasOwnProperty'',
      ''__lookupGetter__'', ''__lookupSetter__'', ''isPrototypeOf'', ''propertyIsEnumerable'',
      ''toString'', ''valueOf'', ''__proto__'', ''toLocaleString'']"

text \<open>A member that no listed property gives: the built-in prototypes are asked.\<close>

definition builtin_member :: "host \<Rightarrow> sobject \<Rightarrow> string \<Rightarrow> jsval" where
  "builtin_member h ob n =
     (if is_callable_kind (kind ob) \<and> n \<in> set FUNCTION_PROTOTYPE_NAMES
      then h_function_prototype h n
      else if n \<in> set OBJECT_PROTOTYPE_NAMES then h_object_prototype h n
      else Prim Undefined)"

text \<open>
  \<open>target[prop]\<close>: a \<open>TypeError\<close> on \<open>undefined\<close> and \<open>null\<close>; on a string its
  \<open>length\<close> and characters, and on any primitive what the wrapper prototypes give; on
  an object the elements and \<open>length\<close> of an array or buffer, then the listed
  properties (a getter is run by the host and may throw, an accessor without getter
  reads as \<open>undefined\<close>), then the built-in prototypes.
\<close>

fun get_member :: "host \<Rightarrow> sstate \<Rightarrow> jsval \<Rightarrow> string \<Rightarrow> (jsval + jsval) \<times> sstate" where
  "get_member h st (Prim Undefined) n =
     throw_TypeError (''Cannot read property '' @ quoted n @ '' of undefined'') st"
| "get_member h st (Prim Null) n =
     throw_TypeError (''Cannot read property '' @ quoted n @ '' of null'') st"
| "get_member h st (Prim (Str s)) n =
     (case indexed_member (map (\<lambda>c. Prim (Str [c])) s) n of
        Some v \<Rightarrow> (Inr v, st)
      | None \<Rightarrow> (Inr (h_primitive_member h (Str s) n), st))"
| "get_member h st (Prim p) n = (Inr (h_primitive_member h p n), st)"
| "get_member h st (Ref a) n =
     (let ob = sheap st a in
      case exotic_member (kind ob) n of
        Some v \<Rightarrow> (Inr v, st)
      | None \<Rightarrow>
          (case find_prop ob n of
             Some p \<Rightarrow>
               (if pget p then h_getter h a n st
                else if pset p then (Inr (Prim Undefined), st)
                else (Inr (pvalue p), st))
           | None \<Rightarrow> (Inr (builtin_member h ob n), st)))"

text \<open>
  \<open>obj.__proto__ = v\<close> goes to the setter of \<open>Object.prototype\<close>: an object or
  \<open>null\<close> becomes the prototype, any other value is ignored, and no own property is
  made. The new chain is the one \<open>v\<close> has at that moment.
\<close>

definition set_prototype :: "sstate \<Rightarrow> sobject \<Rightarrow> jsval \<Rightarrow> sobject" where
  "set_prototype st ob v =
     (case v of
        Ref b \<Rightarrow> ob\<lparr>protos := (is_callable_kind (kind (sheap st b)), own (sheap st b))
                                 # protos (sheap st b),
                       octor := octor (sheap st b)\<rparr>
      | Prim Null \<Rightarrow> ob\<lparr>protos := [], octor := NoCtor\<rparr>
      | Prim p \<Rightarrow> ob)"

text \<open>
  Conversion to a number, \<open>None\<close> for \<open>NaN\<close>. Numbers are integers here; a string
  is a number when it is empty or made of decimal digits with an optional minus sign,
  and an object is taken as \<open>NaN\<close>.
\<close>

fun to_number :: "jsval \<Rightarrow> int option" where
  "to_number (Prim Undefined) = None"
| "to_number (Prim Null) = Some 0"
| "to_number (Prim (Bool b)) = Some (if b then 1 else 0)"
| "to_number (Prim (Num i)) = Some i"
| "to_number (Prim (Str [])) = Some 0"
| "to_number (Prim (Str (c # cs))) =
     (if c = CHR ''-'' \<and> cs \<noteq> [] then map_option (\<lambda>k. - int k) (parse_nat cs 0)
      else map_option int (parse_nat (c # cs) 0))"
| "to_number (Ref a) = None"

text \<open>
  Writing an element or the \<open>length\<close> of an array or buffer: \<open>None\<close> when the name
  is neither, \<open>Inl\<close> the message of the \<open>RangeError\<close> for a bad array length, \<open>Inr\<close>
  the new kind. An index past the end extends an array with holes, which read as
  \<open>undefined\<close>, and is ignored by a buffer; a byte is stored modulo 256; the
  \<open>length\<close> of a buffer cannot be written.
\<close>

definition store_exotic :: "skind \<Rightarrow> string \<Rightarrow> jsval \<Rightarrow> (string + skind) option" where
  "store_exotic k n v =
     (case k of
        KArray els \<Rightarrow>
          (if n = ''length'' then
             (case to_number v of
                None \<Rightarrow> Some (Inl ''Invalid array length'')
              | Some m \<Rightarrow>
                  (if 0 \<le> m \<and> m < 2 ^ 32
                   then Some (Inr (KArray (take (nat m) els
                                            @ replicate (nat m - length els) (Prim Undefined))))
                   else Some (Inl ''Invalid array length'')))
           else case array_index n of
             None \<Rightarrow> None
           | Some i \<Rightarrow>
               Some (Inr (KArray (if i < length els then els[i := v]
                                  else els @ replicate (i - length els) (Prim Undefined) @ [v]))))
      | KBuffer bs \<Rightarrow>
          (if n = ''length'' then Some (Inr (KBuffer bs))
           else case array_index n of
             None \<Rightarrow> None
           | Some i \<Rightarrow>
               Some (Inr (KBuffer (if i < length bs
                                   then bs[i := word_of_int (case to_number v of
                                                               None \<Rightarrow> 0 | Some m \<Rightarrow> m)]
                                   else bs))))
      | _ \<Rightarrow> None)"

text \<open>
  \<open>target[prop] = value\<close> on a data property, in sloppy mode: no effect on a
  read-only property, own or inherited; an inherited writable property is shadowed by a
  new own property.
\<close>

definition store_prop :: "sobject \<Rightarrow> string \<Rightarrow> jsval \<Rightarrow> sobject" where
  "store_prop ob n v =
     (case find (\<lambda>p. pname p = n) (own ob) of
        Some p \<Rightarrow>
          (if pwritable p
           then ob\<lparr>own := map (\<lambda>q. if pname q = n then q\<lparr>pvalue := v\<rparr> else q) (own ob)\<rparr>
           else ob)
      | None \<Rightarrow>
          (case find (\<lambda>p. pname p = n) (concat (map snd (protos ob))) of
             Some p \<Rightarrow> (if pwritable p then ob\<lparr>own := own ob @ [data_prop n v True]\<rparr> else ob)
           | None \<Rightarrow> ob\<lparr>own := own ob @ [data_prop n v True]\<rparr>))"

text \<open>
  \<open>target[prop] = value\<close>: a \<open>TypeError\<close> on \<open>undefined\<close> and \<open>null\<close>, no effect
  on the other primitives. On an object: an element or the \<open>length\<close> of an array or
  buffer; a setter, run by the host; nothing for an accessor without setter; the
  prototype for \<open>__proto__\<close>; else the data property.
\<close>

fun set_member :: "host \<Rightarrow> sstate \<Rightarrow> jsval \<Rightarrow> string \<Rightarrow> jsval \<Rightarrow> (jsval + unit) \<times> sstate" where
  "set_member h st (Prim Undefined) n v =
     throw_TypeError (''Cannot set property '' @ quoted n @ '' of undefined'') st"
| "set_member h st (Prim Null) n v =
     throw_TypeError (''Cannot set property '' @ quoted n @ '' of null'') st"
| "set_member h st (Prim p) n v = (Inr (), st)"
| "set_member h st (Ref a) n v =
     (let ob = sheap st a in
      case store_exotic (kind ob) n v of
        Some (Inl message) \<Rightarrow> throw_RangeError message st
      | Some (Inr k) \<Rightarrow> (Inr (), st\<lparr>sheap := (sheap st)(a := ob\<lparr>kind := k\<rparr>)\<rparr>)
      | None \<Rightarrow>
          (case find_prop ob n of
             Some p \<Rightarrow>
               (if pset p then h_setter h a n v st
                else if pget p then (Inr (), st)
                else (Inr (), st\<lparr>sheap := (sheap st)(a := store_prop ob n v)\<rparr>))
           | None \<Rightarrow>
               (if n = ''__proto__''
                then (Inr (), st\<lparr>sheap := (sheap st)(a := set_prototype st ob v)\<rparr>)
                else (Inr (), st\<lparr>sheap := (sheap st)(a := store_prop ob n v)\<rparr>))))"

text \<open>\<open>typeof v === 'function'\<close>.\<close>

fun is_function :: "sstate \<Rightarrow> jsval \<Rightarrow> bool" where
  "is_function st (Prim p) = False"
| "is_function st (Ref a) = is_callable_kind (kind (sheap st a))"

fun truthy :: "jsval \<Rightarrow> bool" where
  "truthy (Prim Undefined) = False"
| "truthy (Prim Null) = False"
| "truthy (Prim (Bool b)) = b"
| "truthy (Prim (Num i)) = (i \<noteq> 0)"
| "truthy (Prim (Str s)) = (s \<noteq> [])"
| "truthy (Ref a) = True"

text \<open>\<open>v == null\<close>.\<close>

fun is_nullish :: "jsval \<Rightarrow> bool" where
  "is_nullish (Prim Undefined) = True"
| "is_nullish (Prim Null) = True"
| "is_nullish v = False"

section \<open>Server side: value encoder (rpc-server.js, valueToMeta)\<close>

definition FUNCTION_PROPERTIES :: "string list" where
  "FUNCTION_PROPERTIES = [''length'', ''name'', ''arguments'', ''caller'', ''prototype'']"

text \<open>
  \<open>getObjectMembers\<close> on an object with the given own properties; \<open>callable\<close> is
  \<open>typeof object === 'function'\<close>.
\<close>

definition member_of :: "sstate \<Rightarrow> sprop \<Rightarrow> memberdesc" where
  "member_of st p =
     (if \<not> pget p \<and> \<not> pset p \<and> is_function st (pvalue p)
      then \<lparr>mname = pname p, menumerable = penumerable p, mwritable = False, mtype = ''method''\<rparr>
      else \<lparr>mname = pname p, menumerable = penumerable p,
            mwritable = (pset p \<or> pwritable p), mtype = ''get''\<rparr>)"

definition getObjectMembers :: "sstate \<Rightarrow> bool \<Rightarrow> sprop list \<Rightarrow> memberdesc list" where
  "getObjectMembers st callable ps =
     map (member_of st)
       (if callable then filter (\<lambda>p. pname p \<notin> set FUNCTION_PROPERTIES) ps else ps)"

fun getObjectPrototype :: "sstate \<Rightarrow> (bool \<times> sprop list) list \<Rightarrow> protodesc option" where
  "getObjectPrototype st [] = None"
| "getObjectPrototype st ((callable, ps) # rest) =
     Some (ProtoDesc (getObjectMembers st callable ps) (getObjectPrototype st rest))"

text \<open>
  \<open>plainObjectToMeta\<close>: the own properties by name and raw value, each read with
  \<open>obj[name]\<close>.
\<close>

fun read_members :: "host \<Rightarrow> sstate \<Rightarrow> jsval \<Rightarrow> string list
                       \<Rightarrow> (jsval + (string \<times> jsval) list) \<times> sstate" where
  "read_members h st obj [] = (Inr [], st)"
| "read_members h st obj (n # ns) =
     (case get_member h st obj n of
        (Inl e, st') \<Rightarrow> (Inl e, st')
      | (Inr v, st') \<Rightarrow>
          (case read_members h st' obj ns of
             (Inl e, st'') \<Rightarrow> (Inl e, st'')
           | (Inr vs, st'') \<Rightarrow> (Inr ((n, v) # vs), st'')))"

definition plainObjectToMeta :: "host \<Rightarrow> sstate \<Rightarrow> addr
                                   \<Rightarrow> (jsval + (string \<times> jsval) list) \<times> sstate" where
  "plainObjectToMeta h st a = read_members h st (Ref a) (map pname (own (sheap st a)))"

text \<open>
  The test for an \<open>arguments\<close> object: an own property \<open>callee\<close> and a \<open>length\<close> that
  is neither \<open>null\<close> nor \<open>undefined\<close>. The \<open>length\<close> is read only when \<open>callee\<close> is
  there.
\<close>

definition is_arguments :: "host \<Rightarrow> sstate \<Rightarrow> addr \<Rightarrow> (jsval + bool) \<times> sstate" where
  "is_arguments h st a =
     (if ''callee'' \<in> set (map pname (own (sheap st a)))
      then (case get_member h st (Ref a) ''length'' of
              (Inl e, st') \<Rightarrow> (Inl e, st')
            | (Inr len, st') \<Rightarrow> (Inr (\<not> is_nullish len), st'))
      else (Inr False, st))"

text \<open>The closure built for a promise: \<open>function (onFulfilled, onRejected) {...}\<close>.\<close>

definition then_closure :: "addr \<Rightarrow> sobject" where
  "then_closure p =
     \<lparr>kind = KThen p,
      own = [\<lparr>pname = ''length'', pvalue = Prim (Num 2), penumerable = False, pwritable = False,
              pget = False, pset = False\<rparr>,
             \<lparr>pname = ''name'', pvalue = Prim (Str []), penumerable = False, pwritable = False,
              pget = False, pset = False\<rparr>],
      protos = [], octor = NamedCtor ''Function'', simple = False, asynchronous = False\<rparr>"

text \<open>
  The \<open>object\<close> and \<open>function\<close> branch: the constructor name, the handle from the
  registry, the members and the prototype.
\<close>

definition reference_meta :: "sstate \<Rightarrow> addr \<Rightarrow> rmeta \<times> sstate" where
  "reference_meta st a =
     (let ob = sheap st a;
          callable = is_callable_kind (kind ob);
          name = ctor_name (sobjname st) (octor ob);
          (i, st') = registry_add st a;
          members = getObjectMembers st' callable (own ob);
          proto = getObjectPrototype st' (protos ob)
      in ((if callable then RFunction name i members proto
           else RObject name i members proto), st'))"

text \<open>
  \<open>valueToMeta\<close>. The first argument is the number of nested calls the stack has room
  for: when it is used up, the call throws the engine's \<open>RangeError\<close>. The walk over the
  elements of an array keeps no record of the arrays it is inside. An \<open>arguments\<close>
  object is tagged \<open>array\<close>, but has no \<open>map\<close> method, so \<open>value.map\<close> is a
  \<open>TypeError\<close>.
\<close>

definition stack_overflow :: string where
  "stack_overflow = ''Maximum call stack size exceeded''"

fun valueToMeta_s :: "nat \<Rightarrow> host \<Rightarrow> sstate \<Rightarrow> jsval \<Rightarrow> bool \<Rightarrow> (jsval + rmeta) \<times> sstate"
and valuesToMeta_s :: "nat \<Rightarrow> host \<Rightarrow> sstate \<Rightarrow> jsval list \<Rightarrow> bool
                         \<Rightarrow> (jsval + rmeta list) \<times> sstate"
where
  "valueToMeta_s 0 h st v optimizeSimpleObject = throw_RangeError stack_overflow st"
| "valueToMeta_s (Suc n) h st (Prim p) optimizeSimpleObject = (Inr (RValue (Prim p)), st)"
| "valueToMeta_s (Suc n) h st (Ref a) optimizeSimpleObject =
     (let ob = sheap st a in
      case kind ob of
        KBuffer bs \<Rightarrow> (Inr (RBuffer (bufferToMeta bs)), st)
      | KArray els \<Rightarrow>
          (case valuesToMeta_s n h st els optimizeSimpleObject of
             (Inl e, st') \<Rightarrow> (Inl e, st')
           | (Inr ms, st') \<Rightarrow> (Inr (RArray ms), st'))
      | KError \<Rightarrow>
          (case plainObjectToMeta h st a of
             (Inl e, st') \<Rightarrow> (Inl e, st')
           | (Inr members, st') \<Rightarrow>
               (case get_member h st' (Ref a) ''name'' of
                  (Inl e, st'') \<Rightarrow> (Inl e, st'')
                | (Inr name, st'') \<Rightarrow> (Inr (RError (members @ [(''name'', name)])), st'')))
      | KDate t \<Rightarrow> (Inr (RDate t), st)
      | KPromise \<Rightarrow>
          (let (f, st') = salloc (then_closure a) st in
           case valueToMeta_s n h st' (Ref f) False of
             (Inl e, st'') \<Rightarrow> (Inl e, st'')
           | (Inr m, st'') \<Rightarrow> (Inr (RPromise m), st''))
      | KPlain \<Rightarrow>
          (case is_arguments h st a of
             (Inl e, st') \<Rightarrow> (Inl e, st')
           | (Inr True, st') \<Rightarrow> throw_TypeError ''value.map is not a function'' st'
           | (Inr False, st') \<Rightarrow>
               (if optimizeSimpleObject \<and> simple (sheap st' a) then (Inr (RValue (Ref a)), st')
                else (let (m, st'') = reference_meta st' a in (Inr m, st''))))
      | _ \<Rightarrow> (let (m, st') = reference_meta st a in (Inr m, st')))"
| "valuesToMeta_s n h st [] optimizeSimpleObject = (Inr [], st)"
| "valuesToMeta_s n h st (x # xs) optimizeSimpleObject =
     (case valueToMeta_s n h st x optimizeSimpleObject of
        (Inl e, st') \<Rightarrow> (Inl e, st')
      | (Inr m, st') \<Rightarrow>
          (case valuesToMeta_s n h st' xs optimizeSimpleObject of
             (Inl e, st'') \<Rightarrow> (Inl e, st'')
           | (Inr ms, st'') \<Rightarrow> (Inr (m # ms), st'')))"

text \<open>
  \<open>exceptionToMeta\<close>. Reading \<open>error.message\<close> is itself a \<open>TypeError\<close> when the
  thrown value is \<open>undefined\<close> or \<open>null\<close>; that error leaves the handler, as does
  anything thrown while the cause is encoded.
\<close>

definition exceptionToMeta :: "nat \<Rightarrow> host \<Rightarrow> sstate \<Rightarrow> jsval \<Rightarrow> (jsval + rmeta) \<times> sstate" where
  "exceptionToMeta n h st error =
     (case get_member h st error ''message'' of
        (Inl e, st') \<Rightarrow> (Inl e, st')
      | (Inr message, st') \<Rightarrow>
          (case get_member h st' error ''stack'' of
             (Inl e, st'') \<Rightarrow> (Inl e, st'')
           | (Inr stack, st'') \<Rightarrow>
               (case get_member h st'' error ''cause'' of
                  (Inl e, st3) \<Rightarrow> (Inl e, st3)
                | (Inr cause, st3) \<Rightarrow>
                    (case valueToMeta_s n h st3 cause False of
                       (Inl e, st4) \<Rightarrow> (Inl e, st4)
                     | (Inr c, st4) \<Rightarrow>
                         (Inr (RException message
                                 (if truthy stack then stack else error) c), st4)))))"

section \<open>Server side: argument decoder (rpc-server.js, unwrapArgs)\<close>

text \<open>
  \<open>unwrapArgs\<close> and its inner \<open>metaToValue\<close>. A \<open>remote-object\<close> descriptor is
  whatever the registry returns for the id. For an \<open>object\<close> descriptor the name of
  the constructor of \<open>{}\<close>, that is of \<open>Object\<close>, is overwritten first; then the
  members are assigned in order with \<open>ret[name] = value\<close>: a later member of the same
  name replaces the value of an earlier one, and a member called \<open>__proto__\<close> sets
  the prototype instead of making a property. Once the prototype is replaced, a member
  that meets an inherited read-only property or accessor makes no own property.
\<close>

definition assign_member :: "sstate \<Rightarrow> sobject \<Rightarrow> string \<Rightarrow> jsval \<Rightarrow> sobject" where
  "assign_member st ob n v =
     (case find_prop ob n of
        Some p \<Rightarrow> (if pget p \<or> pset p then ob else store_prop ob n v)
      | None \<Rightarrow> (if n = ''__proto__'' then set_prototype st ob v else store_prop ob n v))"

fun assign_members :: "sstate \<Rightarrow> sobject \<Rightarrow> (string \<times> jsval) list \<Rightarrow> sobject" where
  "assign_members st ob [] = ob"
| "assign_members st ob ((n, v) # rest) = assign_members st (assign_member st ob n v) rest"

fun metaToValue_s :: "sstate \<Rightarrow> ameta \<Rightarrow> (jsval + jsval) \<times> sstate"
and unwrapArgs :: "sstate \<Rightarrow> ameta list \<Rightarrow> (jsval + jsval list) \<times> sstate"
and unwrapMembers :: "sstate \<Rightarrow> (string \<times> ameta) list \<Rightarrow> (jsval + (string \<times> jsval) list) \<times> sstate"
where
  "metaToValue_s st (AValue p) = (Inr (Prim p), st)"
| "metaToValue_s st (ARemoteObject i) = (Inr (registry_get st (Some i)), st)"
| "metaToValue_s st (AArray ms) =
     (case unwrapArgs st ms of
        (Inl e, st') \<Rightarrow> (Inl e, st')
      | (Inr vs, st') \<Rightarrow>
          (let (a, st'') = salloc (plain_object (KArray vs) [] (NamedCtor ''Array'')) st'
           in (Inr (Ref a), st'')))"
| "metaToValue_s st (ABuffer bs) =
     (let (a, st') = salloc (plain_object (KBuffer (metaToBuffer bs)) [] (NamedCtor ''Buffer'')) st
      in (Inr (Ref a), st'))"
| "metaToValue_s st (ADate t) =
     (let (a, st') = salloc (plain_object (KDate t) [] (NamedCtor ''Date'')) st
      in (Inr (Ref a), st'))"
| "metaToValue_s st (APromise t) =
     (case metaToValue_s st t of
        (Inl e, st') \<Rightarrow> (Inl e, st')
      | (Inr f, st') \<Rightarrow>
          (let (b, st'') = salloc (plain_object KPlain [data_prop ''then'' f True] ObjectCtor) st';
               (a, st3) = salloc (plain_object KPromise [] (NamedCtor ''Promise'')) st''
           in (Inr (Ref a), st3)))"
| "metaToValue_s st (AObject name members) =
     (case unwrapMembers (st\<lparr>sobjname := name\<rparr>) members of
        (Inl e, st') \<Rightarrow> (Inl e, st')
      | (Inr vs, st') \<Rightarrow>
          (let (a, st'') = salloc (assign_members st' (plain_object KPlain [] ObjectCtor) vs) st'
           in (Inr (Ref a), st'')))"
| "metaToValue_s st (AFunctionWithReturnValue m) =
     (case metaToValue_s st m of
        (Inl e, st') \<Rightarrow> (Inl e, st')
      | (Inr returnValue, st') \<Rightarrow>
          (let (a, st'') = salloc (plain_object (KReturns returnValue) [] (NamedCtor ''Function'')) st'
           in (Inr (Ref a), st'')))"
| "metaToValue_s st AFunction = throw_TypeError ''Unsupported type: function'' st"
| "metaToValue_s st (AUnknown t) = throw_TypeError (''Unknown type: '' @ t) st"
| "unwrapArgs st [] = (Inr [], st)"
| "unwrapArgs st (m # ms) =
     (case metaToValue_s st m of
        (Inl e, st') \<Rightarrow> (Inl e, st')
      | (Inr v, st') \<Rightarrow>
          (case unwrapArgs st' ms of
             (Inl e, st'') \<Rightarrow> (Inl e, st'')
           | (Inr vs, st'') \<Rightarrow> (Inr (v # vs), st'')))"
| "unwrapMembers st [] = (Inr [], st)"
| "unwrapMembers st ((n, m) # ms) =
     (case metaToValue_s st m of
        (Inl e, st') \<Rightarrow> (Inl e, st')
      | (Inr v, st') \<Rightarrow>
          (case unwrapMembers st' ms of
             (Inl e, st'') \<Rightarrow> (Inl e, st'')
           | (Inr vs, st'') \<Rightarrow> (Inr ((n, v) # vs), st'')))"

text \<open>
  \<open>unwrapArgs(command.args)\<close> on a command: without the field, \<open>args.map\<close> is a
  \<open>TypeError\<close>.
\<close>

definition unwrap_field :: "sstate \<Rightarrow> ameta list option \<Rightarrow> (jsval + jsval list) \<times> sstate" where
  "unwrap_field st f =
     (case f of
        None \<Rightarrow> throw_TypeError (''Cannot read property '' @ quoted ''map'' @ '' of undefined'') st
      | Some ms \<Rightarrow> unwrapArgs st ms)"

section \<open>Server side: command interpreter (rpc-server.js, the COMMIT handler)\<close>

text \<open>\<open>${command.name}\<close> and \<open>${command.id}\<close> inside a template string.\<close>

definition name_text :: "string option \<Rightarrow> string" where
  "name_text n = (case n of None \<Rightarrow> ''undefined'' | Some s \<Rightarrow> s)"

definition id_text :: "nat option \<Rightarrow> string" where
  "id_text i = (case i of None \<Rightarrow> ''undefined'' | Some k \<Rightarrow> show_nat k)"

text \<open>\<open>f.bind(t)\<close>: binding a bound function keeps the first target and receiver.\<close>

definition bind_function :: "sstate \<Rightarrow> addr \<Rightarrow> jsval \<Rightarrow> addr \<times> sstate" where
  "bind_function st f t =
     (let ob = sheap st f;
          (g, r) = (case kind ob of KBound g0 t0 \<Rightarrow> (g0, t0) | _ \<Rightarrow> (f, t));
          n = (case read_prop ob ''name'' of Prim (Str s) \<Rightarrow> s | _ \<Rightarrow> [])
      in salloc \<lparr>kind = KBound g r,
                 own = [\<lparr>pname = ''length'', pvalue = read_prop ob ''length'', penumerable = False,
                         pwritable = False, pget = False, pset = False\<rparr>,
                        \<lparr>pname = ''name'', pvalue = Prim (Str (''bound '' @ n)),
                         penumerable = False, pwritable = False, pget = False, pset = False\<rparr>],
                 protos = [], octor = NamedCtor ''Function'', simple = False,
                 asynchronous = False\<rparr> st)"

text \<open>
  \<open>handleMember\<close> reads \<open>target[prop]\<close> twice: once for \<open>typeof\<close>, once for the
  value it binds or returns. Binding what the second read gives is a \<open>TypeError\<close>
  when that is not a function.
\<close>

definition handleMember :: "host \<Rightarrow> sstate \<Rightarrow> jsval \<Rightarrow> string \<Rightarrow> (jsval + jsval) \<times> sstate" where
  "handleMember h st target prop =
     (case get_member h st target prop of
        (Inl e, st') \<Rightarrow> (Inl e, st')
      | (Inr v, st') \<Rightarrow>
          (case get_member h st' target prop of
             (Inl e, st'') \<Rightarrow> (Inl e, st'')
           | (Inr w, st'') \<Rightarrow>
               (if is_function st' v then
                  (case w of
                     Ref f \<Rightarrow>
                       (if is_function st'' w
                        then (let (b, st3) = bind_function st'' f target in (Inr (Ref b), st3))
                        else throw_TypeError ''target[prop].bind is not a function'' st'')
                   | Prim p \<Rightarrow> throw_TypeError ''target[prop].bind is not a function'' st'')
                else (Inr w, st''))))"

text \<open>
  \<open>func.apply(caller, args)\<close>: a bound function runs its target with the bound
  receiver; the function of a \<open>function-with-return-value\<close> returns its value; any
  other callable is run by the host; anything else is a \<open>TypeError\<close>.
\<close>

definition apply_function :: "host \<Rightarrow> sstate \<Rightarrow> addr \<Rightarrow> jsval \<Rightarrow> jsval list
                                \<Rightarrow> (jsval + jsval) \<times> sstate" where
  "apply_function h st f caller args =
     (let (g, r) = (case kind (sheap st f) of KBound g0 t0 \<Rightarrow> (g0, t0) | _ \<Rightarrow> (f, caller)) in
      case kind (sheap st g) of
        KReturns v \<Rightarrow> (Inr v, st)
      | k \<Rightarrow> (if is_callable_kind k then h_apply h g r args st
               else throw_TypeError ''func.apply is not a function'' st))"

definition reply_callback :: sobject where
  "reply_callback = plain_object KReply [] (NamedCtor ''Function'')"

text \<open>
  \<open>callFunction\<close>. \<open>v8Util.getHiddenValue\<close> is a native binding that accepts objects
  only, so a primitive \<open>func\<close> is a \<open>TypeError\<close> before the \<open>try\<close> block is entered.
  An error caught inside the block is wrapped in a new \<open>Error\<close> that names the function
  and carries the caught error as \<open>cause\<close>: \<open>func.name\<close> is read and converted to
  text, then \<open>error.message\<close> is read and converted.
\<close>

definition call_error_text :: "string \<Rightarrow> string \<Rightarrow> string" where
  "call_error_text funcName message =
     ''Could not call remote function '' @ quoted funcName
       @ ''. Check that the function signature is correct. Underlying error: '' @ message"

text \<open>The callback appended for an asynchronous function called without one.\<close>

definition push_reply_callback :: "sstate \<Rightarrow> addr \<Rightarrow> jsval list \<Rightarrow> jsval list \<times> sstate" where
  "push_reply_callback st f args =
     (let funcMarkedAsync = asynchronous (sheap st f);
          funcPassedCallback = (args \<noteq> [] \<and> is_function st (last args))
      in if funcMarkedAsync \<and> \<not> funcPassedCallback
         then (let (cb, st') = salloc reply_callback st in (args @ [Ref cb], st'))
         else (args, st))"

text \<open>\<open>funcName\<close>: \<open>func.name\<close>, or \<open>anonymous\<close> when that is \<open>null\<close> or \<open>undefined\<close>.\<close>

definition function_name :: "jsval \<Rightarrow> jsval" where
  "function_name ref = (if is_nullish ref then Prim (Str ''anonymous'') else ref)"

text \<open>
  \<open>${value}\<close> inside a template string in the browser: the fixed text of a primitive;
  for an object the conversion runs code of the host, which may throw.
\<close>

definition to_text :: "host \<Rightarrow> sstate \<Rightarrow> jsval \<Rightarrow> (jsval + string) \<times> sstate" where
  "to_text h st v =
     (case v of
        Prim p \<Rightarrow> (Inr (to_string (Prim p)), st)
      | Ref a \<Rightarrow> h_to_string h a st)"

definition wrapped_error_object :: "string \<Rightarrow> string \<Rightarrow> jsval \<Rightarrow> sobject" where
  "wrapped_error_object funcName message error =
     (error_object ''Error'' (call_error_text funcName message))
       \<lparr>own := own (error_object ''Error'' (call_error_text funcName message))
                @ [data_prop ''cause'' error True]\<rparr>"

definition callFunction :: "host \<Rightarrow> sstate \<Rightarrow> jsval \<Rightarrow> jsval \<Rightarrow> jsval list
                              \<Rightarrow> (jsval + jsval) \<times> sstate" where
  "callFunction h st func caller args =
     (case func of
        Prim p \<Rightarrow> throw_TypeError ''Error processing argument at index 0'' st
      | Ref f \<Rightarrow>
          (let (args', st1) = push_reply_callback st f args
           in case apply_function h st1 f caller args' of
                (Inr ret, st2) \<Rightarrow> (Inr ret, st2)
              | (Inl error, st2) \<Rightarrow>
                  (case get_member h st2 (Ref f) ''name'' of
                     (Inl e, st3) \<Rightarrow> (Inl e, st3)
                   | (Inr ref, st3) \<Rightarrow>
                       (case to_text h st3 (function_name ref) of
                          (Inl e, st4) \<Rightarrow> (Inl e, st4)
                        | (Inr funcName, st4) \<Rightarrow>
                            (case get_member h st4 error ''message'' of
                               (Inl e, st5) \<Rightarrow> (Inl e, st5)
                             | (Inr message, st5) \<Rightarrow>
                                 (case to_text h st5 message of
                                    (Inl e, st6) \<Rightarrow> (Inl e, st6)
                                  | (Inr text, st6) \<Rightarrow>
                                      (let (a, st7) = salloc (wrapped_error_object funcName
                                                                text error) st6
                                       in (Inl (Ref a), st7))))))))"

definition handleFunction :: "host \<Rightarrow> sstate \<Rightarrow> jsval \<Rightarrow> jsval \<Rightarrow> ameta list option
                                \<Rightarrow> (jsval + jsval) \<times> sstate" where
  "handleFunction h st method target args =
     (case unwrap_field st args of
        (Inl e, st') \<Rightarrow> (Inl e, st')
      | (Inr vs, st') \<Rightarrow> callFunction h st' method target vs)"

text \<open>
  \<open>handleConstructor\<close>: \<open>new\<close> on the bound constructor. Binding a value that is not
  callable is a \<open>TypeError\<close>; \<open>new\<close> on the function of a
  \<open>function-with-return-value\<close> yields the returned object, or a new object when the
  value is a primitive. Nothing is caught or wrapped here.
\<close>

definition handleConstructor :: "host \<Rightarrow> sstate \<Rightarrow> jsval \<Rightarrow> ameta list option
                                   \<Rightarrow> (jsval + jsval) \<times> sstate" where
  "handleConstructor h st constructor args =
     (case unwrap_field st args of
        (Inl e, st') \<Rightarrow> (Inl e, st')
      | (Inr vs, st') \<Rightarrow>
          (case constructor of
             Prim p \<Rightarrow> throw_TypeError ''Bind must be called on a function'' st'
           | Ref f \<Rightarrow>
               (let g = (case kind (sheap st' f) of KBound g0 t0 \<Rightarrow> g0 | _ \<Rightarrow> f) in
                case kind (sheap st' g) of
                  KReturns (Ref r) \<Rightarrow> (Inr (Ref r), st')
                | KReturns (Prim p) \<Rightarrow>
                    (let (a, st'') = salloc (plain_object KPlain [] NoCtor) st'
                     in (Inr (Ref a), st''))
                | k \<Rightarrow> (if is_callable_kind k then h_construct h g vs st'
                         else throw_TypeError ''Bind must be called on a function'' st'))))"

text \<open>\<open>unwrapArgs(...)[0]\<close>.\<close>

definition first_value :: "jsval list \<Rightarrow> jsval" where
  "first_value vs = (case vs of [] \<Rightarrow> Prim Undefined | v # _ \<Rightarrow> v)"

definition missing_text :: "string \<Rightarrow> command \<Rightarrow> string" where
  "missing_text what c =
     ''Cannot '' @ what @ '' '' @ quoted (name_text (cname c))
       @ '' on missing remote object '' @ id_text (cid c)"

text \<open>
  One pass of the \<open>switch\<close>: the command, the register \<open>ret\<close> and the state give the
  new register or a thrown value. A command type without a \<open>case\<close> leaves everything
  as it is.
\<close>

definition exec_command :: "host \<Rightarrow> command \<Rightarrow> jsval \<Rightarrow> sstate \<Rightarrow> (jsval + jsval) \<times> sstate" where
  "exec_command h c ret st =
     (if ctype c = ''member_get'' then handleMember h st ret (name_text (cname c))
      else if ctype c = ''member_set'' then
        (case unwrap_field st (cvalue c) of
           (Inl e, st') \<Rightarrow> (Inl e, st')
         | (Inr vs, st') \<Rightarrow>
             (case set_member h st' ret (name_text (cname c)) (first_value vs) of
                (Inl e, st'') \<Rightarrow> (Inl e, st'')
              | (Inr u, st'') \<Rightarrow> (Inr (Prim Null), st'')))
      else if ctype c = ''member_call'' then
        (case get_member h st ret (name_text (cname c)) of
           (Inl e, st') \<Rightarrow> (Inl e, st')
         | (Inr method, st') \<Rightarrow> handleFunction h st' method ret (cargs c))
      else if ctype c = ''member_constructor'' then
        (case get_member h st ret (name_text (cname c)) of
           (Inl e, st') \<Rightarrow> (Inl e, st')
         | (Inr constructor, st') \<Rightarrow> handleConstructor h st' constructor (cargs c))
      else if ctype c = ''remote_object_get'' then
        (let obj = registry_get st (cid c) in
         if is_nullish obj then throwRPCError (missing_text ''get property'' c) st
         else handleMember h st obj (name_text (cname c)))
      else if ctype c = ''remote_object_set'' then
        (let obj = registry_get st (cid c) in
         if is_nullish obj then throwRPCError (missing_text ''set property'' c) st
         else case unwrap_field st (cvalue c) of
           (Inl e, st') \<Rightarrow> (Inl e, st')
         | (Inr vs, st') \<Rightarrow>
             (case set_member h st' obj (name_text (cname c)) (first_value vs) of
                (Inl e, st'') \<Rightarrow> (Inl e, st'')
              | (Inr u, st'') \<Rightarrow> (Inr (Prim Null), st'')))
      else if ctype c = ''remote_object_call'' then
        (let obj = registry_get st (cid c) in
         if is_nullish obj then throwRPCError (missing_text ''call function'' c) st
         else case get_member h st obj (name_text (cname c)) of
           (Inl e, st') \<Rightarrow> (Inl e, st')
         | (Inr method, st') \<Rightarrow> handleFunction h st' method obj (cargs c))
      else if ctype c = ''remote_object_constructor'' then
        (let obj = registry_get st (cid c) in
         if is_nullish obj then throwRPCError (missing_text ''call constructor'' c) st
         else case get_member h st obj (name_text (cname c)) of
           (Inl e, st') \<Rightarrow> (Inl e, st')
         | (Inr constructor, st') \<Rightarrow> handleConstructor h st' constructor (cargs c))
      else if ctype c = ''function_call'' then
        (if cid c = None then handleFunction h st ret (h_global_object h) (cargs c)
         else let func = registry_get st (cid c) in
           if is_nullish func
           then throwRPCError (''Cannot call function on missing remote object '' @ id_text (cid c)) st
           else handleFunction h st func (h_global_object h) (cargs c))
      else if ctype c = ''constructor_call'' then
        (if cid c = None then handleConstructor h st ret (cargs c)
         else let constructor = registry_get st (cid c) in
           if is_nullish constructor
           then throwRPCError (''Cannot call constructor on missing remote object ''
                                 @ id_text (cid c)) st
           else handleConstructor h st constructor (cargs c))
      else if ctype c = ''get_builtin'' then (Inr (h_builtin h (cmodule c)), st)
      else if ctype c = ''get_global'' then (Inr (h_global h (cname c)), st)
      else if ctype c = ''get_current_window'' then h_window h st
      else if ctype c = ''get_current_web_contents'' then (Inr (h_sender h), st)
      else if ctype c = ''require'' then h_require h (cmodule c) st
      else (Inr ret, st))"

text \<open>
  The \<open>for\<close> loop: after each command the flag \<open>optimize\<close> is set from its type. The
  loop ends at the first thrown value.
\<close>

definition is_call_type :: "string \<Rightarrow> bool" where
  "is_call_type t = (t = ''function_call'' \<or> t = ''member_call'')"

fun run_commands :: "host \<Rightarrow> command list \<Rightarrow> jsval \<Rightarrow> bool \<Rightarrow> sstate
                       \<Rightarrow> (jsval + jsval \<times> bool) \<times> sstate" where
  "run_commands h [] ret optimize st = (Inr (ret, optimize), st)"
| "run_commands h (c # cs) ret optimize st =
     (case exec_command h c ret st of
        (Inl e, st') \<Rightarrow> (Inl e, st')
      | (Inr ret', st') \<Rightarrow> run_commands h cs ret' (is_call_type (ctype c)) st')"

text \<open>
  The handler: the response assigned to \<open>event.returnValue\<close> (\<open>Inr\<close>), or the value
  thrown out of the \<open>catch\<close> block (\<open>Inl\<close>). The first argument is the room on the
  stack for the encoder, as in \<open>valueToMeta_s\<close>.
\<close>

definition handle_commit :: "nat \<Rightarrow> host \<Rightarrow> command list \<Rightarrow> sstate
                               \<Rightarrow> (jsval + rmeta) \<times> sstate" where
  "handle_commit n h commands st =
     (case run_commands h commands (Prim Undefined) False st of
        (Inl error, st') \<Rightarrow> exceptionToMeta n h st' error
      | (Inr (ret, optimize), st') \<Rightarrow>
          (case valueToMeta_s n h st' ret optimize of
             (Inl error, st'') \<Rightarrow> exceptionToMeta n h st'' error
           | (Inr m, st'') \<Rightarrow> (Inr m, st'')))"

text \<open>The \<open>case\<close> labels of the \<open>switch\<close>.\<close>

definition command_types :: "string list" where
  "command_types =
     [''member_get'', ''member_set'', ''member_call'', ''member_constructor'',
      ''remote_object_get'', ''remote_object_set'', ''remote_object_call'',
      ''remote_object_constructor'', ''function_call'', ''constructor_call'',
      ''get_builtin'', ''get_global'', ''get_current_window'', ''get_current_web_contents'',
      ''require'']"

section \<open>Plain data and its equality across the two processes\<close>

text \<open>
  \<open>plain_data n st v\<close>: in the browser state \<open>st\<close>, the value \<open>v\<close> is a primitive, a
  buffer, a date, or an array of such values, nested less than \<open>n\<close> deep.
\<close>

fun plain_data :: "nat \<Rightarrow> sstate \<Rightarrow> jsval \<Rightarrow> bool" where
  "plain_data 0 st v = False"
| "plain_data (Suc n) st (Prim p) = True"
| "plain_data (Suc n) st (Ref a) =
     (case kind (sheap st a) of
        KArray els \<Rightarrow> list_all (plain_data n st) els
      | KBuffer bs \<Rightarrow> True
      | KDate t \<Rightarrow> True
      | _ \<Rightarrow> False)"

text \<open>
  \<open>same_data n st s v w\<close>: the value \<open>v\<close> of the browser state \<open>st\<close> and the value
  \<open>w\<close> of the renderer state \<open>s\<close> are equal as data: the same primitive, buffers with
  the same bytes, dates with the same time, arrays of the same length with equal
  elements.
\<close>

fun same_data :: "nat \<Rightarrow> sstate \<Rightarrow> cstate \<Rightarrow> jsval \<Rightarrow> jsval \<Rightarrow> bool" where
  "same_data 0 st s v w = False"
| "same_data (Suc n) st s (Prim p) w = (w = Prim p)"
| "same_data (Suc n) st s (Ref a) (Prim q) = False"
| "same_data (Suc n) st s (Ref a) (Ref b) =
     (case kind (sheap st a) of
        KArray xs \<Rightarrow> (case cheap s b of
                       CArray ys \<Rightarrow> list_all2 (same_data n st s) xs ys | _ \<Rightarrow> False)
      | KBuffer bs \<Rightarrow> (case cheap s b of CBuffer bs' \<Rightarrow> bs' = bs | _ \<Rightarrow> False)
      | KDate t \<Rightarrow> (case cheap s b of CDate t' \<Rightarrow> t' = t | _ \<Rightarrow> False)
      | _ \<Rightarrow> False)"

text \<open>
  \<open>below n s k w\<close>: every object reached from \<open>w\<close> in the renderer state \<open>s\<close> within
  depth \<open>n\<close> has an address below \<open>k\<close>.
\<close>

fun below :: "nat \<Rightarrow> cstate \<Rightarrow> addr \<Rightarrow> jsval \<Rightarrow> bool" where
  "below 0 s k w = True"
| "below (Suc n) s k (Prim p) = True"
| "below (Suc n) s k (Ref b) =
     (b < k \<and> (case cheap s b of CArray ys \<Rightarrow> list_all (below n s k) ys | _ \<Rightarrow> True))"

section \<open>Concrete states\<close>

text \<open>
  A renderer state with an empty cache, a browser state with an empty registry, a host
  whose functions return \<open>undefined\<close>, and a channel that always replies with the
  \<open>value\<close> descriptor of 7. Unused addresses hold dates.
\<close>

definition reply_seven :: "command list \<Rightarrow> rmeta" where
  "reply_seven commands = RValue (Prim (Num 7))"

definition cstate0 :: cstate where
  "cstate0 = \<lparr>cheap = (\<lambda>a. CDate 0), cnext = 0, cache = Map.empty, cobjname = ''Object'',
              csent = []\<rparr>"

definition sobject0 :: sobject where
  "sobject0 = plain_object (KDate 0) [] (NamedCtor ''Date'')"

definition sstate0 :: sstate where
  "sstate0 = \<lparr>sheap = (\<lambda>a. sobject0), snext = 0, reg_entries = [], reg_last = 0,
              sobjname = ''Object''\<rparr>"

definition host0 :: host where
  "host0 = \<lparr>h_apply = (\<lambda>f t args st. (Inr (Prim Undefined), st)),
            h_construct = (\<lambda>f args st. (Inr (Prim Undefined), st)),
            h_getter = (\<lambda>a n st. (Inr (Prim Undefined), st)),
            h_setter = (\<lambda>a n v st. (Inr (), st)),
            h_object_prototype = (\<lambda>n. Prim Undefined),
            h_function_prototype = (\<lambda>n. Prim Undefined),
            h_primitive_member = (\<lambda>p n. Prim Undefined),
            h_to_string = (\<lambda>a st. (Inr ''[object Object]'', st)),
            h_builtin = (\<lambda>m. Prim Undefined),
            h_global = (\<lambda>n. Prim Undefined),
            h_global_object = Prim Undefined,
            h_window = (\<lambda>st. (Inr (Prim Undefined), st)),
            h_sender = Prim Undefined,
            h_require = (\<lambda>m st. (Inr (Prim Undefined), st))\<rparr>"

text \<open>
  A renderer state with one function at address 0. A browser state with a window object
  at address 1, registered under the handle id 3: its \<open>id\<close> is 7, its methods \<open>hide\<close>
  (address 0) and \<open>fail\<close> (address 2) are functions of the host; \<open>hide\<close> returns
  \<open>undefined\<close> and \<open>fail\<close> throws \<open>new Error('boom')\<close>.
\<close>

definition cstate_fn :: cstate where
  "cstate_fn = cstate0\<lparr>cheap := (cheap cstate0)(0 := CFunction None), cnext := 1\<rparr>"

definition host_function :: "string \<Rightarrow> sobject" where
  "host_function n =
     plain_object KFunction
       [\<lparr>pname = ''length'', pvalue = Prim (Num 0), penumerable = False, pwritable = False,
         pget = False, pset = False\<rparr>,
        \<lparr>pname = ''name'', pvalue = Prim (Str n), penumerable = False, pwritable = False,
         pget = False, pset = False\<rparr>]
       (NamedCtor ''Function'')"

definition window_object :: sobject where
  "window_object =
     plain_object KPlain
       [data_prop ''id'' (Prim (Num 7)) True,
        data_prop ''hide'' (Ref 0) True,
        data_prop ''fail'' (Ref 2) True]
       (NamedCtor ''BrowserWindow'')"

definition sstate1 :: sstate where
  "sstate1 = \<lparr>sheap = (\<lambda>a. sobject0)(0 := host_function ''hide'', 1 := window_object,
                                        2 := host_function ''fail''),
              snext = 3, reg_entries = [(3, 1)], reg_last = 3, sobjname = ''Object''\<rparr>"

definition host1 :: host where
  "host1 = host0\<lparr>h_apply := (\<lambda>f t args st.
                     if f = 2 then (let (a, st') = new_error ''Error'' ''boom'' st
                                    in (Inl (Ref a), st'))
                     else (Inr (Prim Undefined), st)),
                  h_window := (\<lambda>st. (Inr (Ref 1), st))\<rparr>"

text \<open>Commands used below: a call of \<open>fail\<close> and a call of \<open>hide\<close> on the handle 3.\<close>

definition call_fail :: command where
  "call_fail = (mk_command ''remote_object_call'')\<lparr>cname := Some ''fail'', cid := Some 3,
                                                    cargs := Some []\<rparr>"

definition get_hide :: command where
  "get_hide = (mk_command ''remote_object_get'')\<lparr>cname := Some ''hide'', cid := Some 3\<rparr>"

definition bare_call :: command where
  "bare_call = (mk_command ''function_call'')\<lparr>cargs := Some []\<rparr>"

text \<open>
  An object that refers to itself through its property \<open>self\<close> and an array that is
  its own element, in the renderer and in the browser.
\<close>

definition cstate_cyc :: cstate where
  "cstate_cyc = cstate0\<lparr>cheap := (cheap cstate0)
                   (0 := CObject ObjectCtor [(''self'', Ref 0), (''n'', Prim (Num 1))],
                    1 := CArray [Ref 1]),
                 cnext := 2\<rparr>"

definition sstate_cyc :: sstate where
  "sstate_cyc = sstate0\<lparr>sheap := (sheap sstate0)
                   (0 := plain_object KPlain [data_prop ''self'' (Ref 0) True] ObjectCtor,
                    1 := plain_object (KArray [Ref 1]) [] (NamedCtor ''Array'')),
                 snext := 2\<rparr>"

text \<open>
  A browser state with a buffer, a date and an array that holds them among primitives.
\<close>

definition sstate_data :: sstate where
  "sstate_data = sstate0\<lparr>sheap := (sheap sstate0)
                    (0 := plain_object (KBuffer [1, 2, 255]) [] (NamedCtor ''Buffer''),
                     1 := plain_object (KDate 1500000000000) [] (NamedCtor ''Date''),
                     2 := plain_object (KArray [Prim (Num 1), Prim (Str ''a''), Ref 0, Ref 1,
                                                Prim Null, Prim Undefined, Prim (Bool True)])
                            [] (NamedCtor ''Array'')),
                  snext := 3\<rparr>"


text \<open>
  The window with two more members: \<open>bounds\<close>, a simple object at address 3, and the
  method \<open>getBounds\<close> at address 4, which returns that object. A host whose
  constructors throw \<open>null\<close>, and a host whose global \<open>a\<close> is the array that is its
  own element.
\<close>

definition bounds_object :: sobject where
  "bounds_object =
     (plain_object KPlain [data_prop ''width'' (Prim (Num 800)) True,
                           data_prop ''height'' (Prim (Num 600)) True] ObjectCtor)
       \<lparr>simple := True\<rparr>"

definition sstate2 :: sstate where
  "sstate2 = sstate1\<lparr>sheap := (sheap sstate1)
                 (1 := window_object\<lparr>own := own window_object
                                           @ [data_prop ''getBounds'' (Ref 4) True,
                                              data_prop ''bounds'' (Ref 3) True]\<rparr>,
                  3 := bounds_object,
                  4 := host_function ''getBounds''),
               snext := 5\<rparr>"

definition host2 :: host where
  "host2 = host1\<lparr>h_apply := (\<lambda>f t args st.
                     if f = 4 then (Inr (Ref 3), st) else h_apply host1 f t args st)\<rparr>"

definition call_getBounds :: command where
  "call_getBounds = (mk_command ''member_call'')\<lparr>cname := Some ''getBounds'', cargs := Some []\<rparr>"

definition get_bounds :: command where
  "get_bounds = (mk_command ''member_get'')\<lparr>cname := Some ''bounds''\<rparr>"



definition host_cyc :: host where
  "host_cyc = host0\<lparr>h_global := (\<lambda>n. Ref 1)\<rparr>"

definition get_a :: command where
  "get_a = (mk_command ''get_global'')\<lparr>cname := Some ''a''\<rparr>"

section \<open>What installing members changes\<close>

text \<open>
  Installing the members of a remote object only allocates: the log of sent chains, the
  cache and the name of \<open>Object\<close> stay as they are, and so does every cell in use.
\<close>

lemma setObjectMembers_frame:
  "setObjectMembers i ob ms s = (r, s') \<Longrightarrow>
   csent s' = csent s \<and> cache s' = cache s \<and> cobjname s' = cobjname s
   \<and> cnext s \<le> cnext s' \<and> (\<forall>b < cnext s. cheap s' b = cheap s b)"
proof (induction ms arbitrary: ob s)
  case Nil
  then show ?case by auto
next
  case (Cons d ms)
  show ?case
  proof (cases "find (\<lambda>m. mname m = ''hasOwnProperty'') ob")
    case None
    then show ?thesis
      using Cons.prems Cons.IH [of "ob" s] Cons.IH [of "ob @ [d]" s]
      by (auto split: if_splits)
  next
    case (Some m)
    let ?s1 = "snd (calloc (CLazy [(mk_command ''remote_object_call'')
                                   \<lparr>cname := Some ''hasOwnProperty'', cid := Some i,
                                    cargs := Some [AValue (Str (mname d))]\<rparr>]) s)"
    show ?thesis
    proof (cases "mtype m = ''method'' \<or> mtype m = ''get''")
      case True
      then have "setObjectMembers i ob ms ?s1 = (r, s')"
        using Cons.prems Some by (simp add: calloc_def)
      from Cons.IH [OF this] show ?thesis
        by (auto simp: calloc_def)
    next
      case False
      then show ?thesis using Cons.prems Some by auto
    qed
  qed
qed

lemma setObjectPrototype_frame:
  "setObjectPrototype i p s = (r, s') \<Longrightarrow>
   csent s' = csent s \<and> cache s' = cache s \<and> cobjname s' = cobjname s
   \<and> cnext s \<le> cnext s' \<and> (\<forall>b < cnext s. cheap s' b = cheap s b)"
proof (induction i p s arbitrary: r s' rule: setObjectPrototype.induct)
  case (1 metaId s)
  then show ?case by auto
next
  case (2 metaId ms p s)
  obtain r1 s1 where m: "setObjectMembers metaId [] ms s = (r1, s1)"
    by (cases "setObjectMembers metaId [] ms s")
  note f1 = setObjectMembers_frame [OF m]
  show ?case
  proof (cases r1)
    case (Inl e)
    then show ?thesis using "2.prems" m f1 by auto
  next
    case (Inr proto)
    obtain r2 s2 where p: "setObjectPrototype metaId p s1 = (r2, s2)"
      by (cases "setObjectPrototype metaId p s1")
    have f2: "csent s2 = csent s1 \<and> cache s2 = cache s1 \<and> cobjname s2 = cobjname s1
              \<and> cnext s1 \<le> cnext s2 \<and> (\<forall>b < cnext s1. cheap s2 b = cheap s1 b)"
      using "2.IH" m m [symmetric] Inr p by blast
    have "s' = s2"
      using "2.prems" m Inr p by (auto split: sum.splits)
    then show ?thesis using f1 f2 by auto
  qed
qed

section \<open>Properties of the command builder\<close>

text \<open>Decoding a reply sends nothing.\<close>

lemma decode_object_frame:
  assumes "metaToValue_c (RObject name i members proto) s = (r, s')"
  shows "csent s' = csent s \<and> cnext s \<le> cnext s'
         \<and> (\<forall>b < cnext s. cheap s' b = cheap s b)"
proof (cases "cache s i")
  case (Some a)
  then show ?thesis using assms by auto
next
  case None
  obtain r1 s1 where m: "setObjectMembers i [] members s = (r1, s1)"
    by (cases "setObjectMembers i [] members s")
  note f1 = setObjectMembers_frame [OF m]
  show ?thesis
  proof (cases r1)
    case (Inl e)
    then show ?thesis using assms None m f1 by auto
  next
    case (Inr own)
    obtain r2 s2 where p: "setObjectPrototype i proto s1 = (r2, s2)"
      by (cases "setObjectPrototype i proto s1")
    note f2 = setObjectPrototype_frame [OF p]
    show ?thesis
    proof (cases r2)
      case (Inl e)
      then show ?thesis using assms None m Inr p f1 f2 by auto
    next
      case r2: (Inr protos)
      have "csent s' = csent s2 \<and> cnext s2 \<le> cnext s'
            \<and> (\<forall>b < cnext s2. cheap s' b = cheap s2 b)"
        using assms None m Inr p r2
        by (auto simp: calloc_def new_LazyObject_def Let_def
                 split: option.splits prod.splits if_splits)
      then show ?thesis using f1 f2 by auto
    qed
  qed
qed

lemma decode_keeps_log:
  "csent (snd (metaToValue_c m s)) = csent s"
  "csent (snd (metaToValues_c ms s)) = csent s"
proof (induction m s and ms s rule: metaToValue_c_metaToValues_c.induct)
  case (8 name i members proto s)
  show ?case
    using decode_object_frame [of name i members proto s
            "fst (metaToValue_c (RObject name i members proto) s)"
            "snd (metaToValue_c (RObject name i members proto) s)"]
    by simp
qed (auto simp: calloc_def new_LazyObject_def Let_def split: prod.splits sum.splits option.splits)

lemma commit_sends_once:
  "csent (snd (commit send commands s)) = csent s @ [commands]"
  by (simp add: commit_def decode_keeps_log)

text \<open>
  Claim C1. Calling the proxy encodes the arguments and looks at the last pending
  command. When that command is a \<open>member_get\<close> (a \<open>remote_object_get\<close>), it is
  replaced in place by the same command with type \<open>member_call\<close>
  (\<open>remote_object_call\<close>) and the encoded arguments, and the list keeps its length; for
  any other last command a \<open>function_call\<close> command with the encoded arguments is
  appended. The call itself sends nothing. Reading \<open>$\<close> afterwards hands the resulting
  list to the channel once, as one chain, and gives the decoded reply. For the
  expression \<open>root.prop.name(args).$\<close> the two property reads send nothing either,
  and the one chain sent is the root command, the \<open>member_get\<close> of \<open>prop\<close> and the
  \<open>member_call\<close> of \<open>name\<close>.
\<close>

theorem apply_trap_upgrades_or_appends:
  assumes ne: "commands \<noteq> []" and enc: "wrapArgs n s {} args = Some (Inr ms)"
  shows "\<exists>cs. apply_trap n s commands args = Some (Inr cs) \<and>
     (ctype (last commands) = ''member_get'' \<longrightarrow>
        cs = butlast commands @ [(last commands)\<lparr>cargs := Some ms, ctype := ''member_call''\<rparr>]
        \<and> length cs = length commands) \<and>
     (ctype (last commands) = ''remote_object_get'' \<longrightarrow>
        cs = butlast commands
               @ [(last commands)\<lparr>cargs := Some ms, ctype := ''remote_object_call''\<rparr>]
        \<and> length cs = length commands) \<and>
     (ctype (last commands) \<noteq> ''member_get'' \<and> ctype (last commands) \<noteq> ''remote_object_get''
        \<longrightarrow> cs = commands @ [(mk_command ''function_call'')\<lparr>cargs := Some ms\<rparr>]) \<and>
     (\<exists>r s'. get_trap send cs ''$'' s = (Some r, cs, s')
        \<and> (r, s') = metaToValue_c (send cs) (s\<lparr>csent := csent s @ [cs]\<rparr>)
        \<and> csent s' = csent s @ [cs]) \<and>
     (\<forall>root prop name. prop \<noteq> ''$'' \<and> name \<noteq> ''$'' \<longrightarrow>
        (\<exists>r s'.
           get_trap send [root] prop s
             = (None, [root, (mk_command ''member_get'')\<lparr>cname := Some prop\<rparr>], s)
         \<and> get_trap send [root, (mk_command ''member_get'')\<lparr>cname := Some prop\<rparr>] name s
             = (None, [root, (mk_command ''member_get'')\<lparr>cname := Some prop\<rparr>,
                       (mk_command ''member_get'')\<lparr>cname := Some name\<rparr>], s)
         \<and> apply_trap n s [root, (mk_command ''member_get'')\<lparr>cname := Some prop\<rparr>,
                             (mk_command ''member_get'')\<lparr>cname := Some name\<rparr>] args
             = Some (Inr [root, (mk_command ''member_get'')\<lparr>cname := Some prop\<rparr>,
                          (mk_command ''member_call'')\<lparr>cname := Some name, cargs := Some ms\<rparr>])
         \<and> get_trap send [root, (mk_command ''member_get'')\<lparr>cname := Some prop\<rparr>,
                            (mk_command ''member_call'')\<lparr>cname := Some name,
                                                          cargs := Some ms\<rparr>] ''$'' s
             = (Some r, [root, (mk_command ''member_get'')\<lparr>cname := Some prop\<rparr>,
                         (mk_command ''member_call'')\<lparr>cname := Some name, cargs := Some ms\<rparr>],
                s')
         \<and> csent s'
             = csent s @ [[root, (mk_command ''member_get'')\<lparr>cname := Some prop\<rparr>,
                           (mk_command ''member_call'')\<lparr>cname := Some name,
                                                         cargs := Some ms\<rparr>]]))"
proof -
  from ne obtain pre c where split: "commands = pre @ [c]"
    by (metis append_butlast_last_id)
  have idx: "commands ! (length commands - 1) = c" "length commands - 1 = length pre"
    using split by simp_all
  have upd: "\<And>c'. commands[length pre := c'] = pre @ [c']"
    using split by simp
  have sent: "\<exists>r s'. get_trap send cs ''$'' s = (Some r, cs, s')
        \<and> (r, s') = metaToValue_c (send cs) (s\<lparr>csent := csent s @ [cs]\<rparr>)
        \<and> csent s' = csent s @ [cs]" for cs
    using commit_sends_once [of send cs s]
    by (auto simp: get_trap_def commit_def split: prod.splits)
  have expr: "\<exists>r s'.
           get_trap send [root] p1 s
             = (None, [root, (mk_command ''member_get'')\<lparr>cname := Some p1\<rparr>], s)
         \<and> get_trap send [root, (mk_command ''member_get'')\<lparr>cname := Some p1\<rparr>] p2 s
             = (None, [root, (mk_command ''member_get'')\<lparr>cname := Some p1\<rparr>,
                       (mk_command ''member_get'')\<lparr>cname := Some p2\<rparr>], s)
         \<and> apply_trap n s [root, (mk_command ''member_get'')\<lparr>cname := Some p1\<rparr>,
                             (mk_command ''member_get'')\<lparr>cname := Some p2\<rparr>] args
             = Some (Inr [root, (mk_command ''member_get'')\<lparr>cname := Some p1\<rparr>,
                          (mk_command ''member_call'')\<lparr>cname := Some p2, cargs := Some ms\<rparr>])
         \<and> get_trap send [root, (mk_command ''member_get'')\<lparr>cname := Some p1\<rparr>,
                            (mk_command ''member_call'')\<lparr>cname := Some p2,
                                                          cargs := Some ms\<rparr>] ''$'' s
             = (Some r, [root, (mk_command ''member_get'')\<lparr>cname := Some p1\<rparr>,
                         (mk_command ''member_call'')\<lparr>cname := Some p2, cargs := Some ms\<rparr>],
                s')
         \<and> csent s'
             = csent s @ [[root, (mk_command ''member_get'')\<lparr>cname := Some p1\<rparr>,
                           (mk_command ''member_call'')\<lparr>cname := Some p2,
                                                         cargs := Some ms\<rparr>]]"
    if "p1 \<noteq> ''$'' \<and> p2 \<noteq> ''$''" for root p1 p2
  proof -
    let ?c3 = "[root, (mk_command ''member_get'')\<lparr>cname := Some p1\<rparr>,
                (mk_command ''member_call'')\<lparr>cname := Some p2, cargs := Some ms\<rparr>]"
    have g: "get_trap send [root] p1 s
               = (None, [root, (mk_command ''member_get'')\<lparr>cname := Some p1\<rparr>], s)"
         "get_trap send [root, (mk_command ''member_get'')\<lparr>cname := Some p1\<rparr>] p2 s
             = (None, [root, (mk_command ''member_get'')\<lparr>cname := Some p1\<rparr>,
                       (mk_command ''member_get'')\<lparr>cname := Some p2\<rparr>], s)"
      using that by (simp_all add: get_trap_def)
    have a: "apply_trap n s [root, (mk_command ''member_get'')\<lparr>cname := Some p1\<rparr>,
                             (mk_command ''member_get'')\<lparr>cname := Some p2\<rparr>] args
             = Some (Inr ?c3)"
      using enc by (simp add: apply_trap_def Let_def mk_command_def)
    from sent [of ?c3] obtain r s' where
      "get_trap send ?c3 ''$'' s = (Some r, ?c3, s')" "csent s' = csent s @ [?c3]"
      by blast
    then show ?thesis using g a by blast
  qed
  have lst: "apply_trap n s commands args
               = Some (Inr (if ctype c = ''member_get''
                            then pre @ [c\<lparr>cargs := Some ms, ctype := ''member_call''\<rparr>]
                            else if ctype c = ''remote_object_get''
                            then pre @ [c\<lparr>cargs := Some ms, ctype := ''remote_object_call''\<rparr>]
                            else commands @ [(mk_command ''function_call'')\<lparr>cargs := Some ms\<rparr>]))"
    (is "_ = Some (Inr ?cs)")
    using ne enc idx upd by (simp add: apply_trap_def Let_def)
  have shape: "(ctype (last commands) = ''member_get'' \<longrightarrow>
        ?cs = butlast commands @ [(last commands)\<lparr>cargs := Some ms, ctype := ''member_call''\<rparr>]
        \<and> length ?cs = length commands) \<and>
     (ctype (last commands) = ''remote_object_get'' \<longrightarrow>
        ?cs = butlast commands
               @ [(last commands)\<lparr>cargs := Some ms, ctype := ''remote_object_call''\<rparr>]
        \<and> length ?cs = length commands) \<and>
     (ctype (last commands) \<noteq> ''member_get'' \<and> ctype (last commands) \<noteq> ''remote_object_get''
        \<longrightarrow> ?cs = commands @ [(mk_command ''function_call'')\<lparr>cargs := Some ms\<rparr>])"
    using split by simp
  show ?thesis
  proof (intro exI [of _ ?cs] conjI)
    show "apply_trap n s commands args = Some (Inr ?cs)" by (rule lst)
    show "\<exists>r s'. get_trap send ?cs ''$'' s = (Some r, ?cs, s')
        \<and> (r, s') = metaToValue_c (send ?cs) (s\<lparr>csent := csent s @ [?cs]\<rparr>)
        \<and> csent s' = csent s @ [?cs]"
      by (rule sent)
  qed (use shape expr in blast)+
qed

theorem apply_trap_upgrades_or_appends_witness:
  "apply_trap 1 cstate0
     [(mk_command ''get_global'')\<lparr>cname := Some ''obj''\<rparr>,
      (mk_command ''member_get'')\<lparr>cname := Some ''prop''\<rparr>,
      (mk_command ''member_get'')\<lparr>cname := Some ''method''\<rparr>]
     [Prim (Num 1), Prim (Num 2)]
   = Some (Inr [(mk_command ''get_global'')\<lparr>cname := Some ''obj''\<rparr>,
                (mk_command ''member_get'')\<lparr>cname := Some ''prop''\<rparr>,
                (mk_command ''member_call'')\<lparr>cname := Some ''method'',
                   cargs := Some [AValue (Num 1), AValue (Num 2)]\<rparr>])
   \<and> get_trap reply_seven
         [(mk_command ''get_global'')\<lparr>cname := Some ''obj''\<rparr>,
          (mk_command ''member_get'')\<lparr>cname := Some ''prop''\<rparr>,
          (mk_command ''member_call'')\<lparr>cname := Some ''method'',
             cargs := Some [AValue (Num 1), AValue (Num 2)]\<rparr>] ''$'' cstate0
       = (Some (Inr (Prim (Num 7))),
          [(mk_command ''get_global'')\<lparr>cname := Some ''obj''\<rparr>,
           (mk_command ''member_get'')\<lparr>cname := Some ''prop''\<rparr>,
           (mk_command ''member_call'')\<lparr>cname := Some ''method'',
              cargs := Some [AValue (Num 1), AValue (Num 2)]\<rparr>],
          cstate0\<lparr>csent := [[(mk_command ''get_global'')\<lparr>cname := Some ''obj''\<rparr>,
                               (mk_command ''member_get'')\<lparr>cname := Some ''prop''\<rparr>,
                               (mk_command ''member_call'')\<lparr>cname := Some ''method'',
                                  cargs := Some [AValue (Num 1), AValue (Num 2)]\<rparr>]]\<rparr>)"
proof -
  let ?cmds = "[(mk_command ''get_global'')\<lparr>cname := Some ''obj''\<rparr>,
                (mk_command ''member_get'')\<lparr>cname := Some ''prop''\<rparr>,
                (mk_command ''member_get'')\<lparr>cname := Some ''method''\<rparr>]"
  have enc: "wrapArgs 1 cstate0 {} [Prim (Num 1), Prim (Num 2)]
               = Some (Inr [AValue (Num 1), AValue (Num 2)])"
    by simp
  have ne: "?cmds \<noteq> []" by simp
  have log: "csent cstate0 = []" by (simp add: cstate0_def)
  show ?thesis
    using apply_trap_upgrades_or_appends [OF ne enc, of reply_seven] log
    by (auto simp: mk_command_def reply_seven_def)
qed

section \<open>Properties of the result materializer\<close>

text \<open>
  An \<open>object\<close> descriptor is decoded through the cache: once a descriptor with a
  handle id has been decoded, decoding a descriptor with that id again returns the same
  object and changes nothing.
\<close>

lemma object_descriptor_cached:
  assumes "metaToValue_c (RObject nm i ms p) s = (Inr r1, s1)"
  shows "metaToValue_c (RObject nm' i ms' p') s1 = (Inr r1, s1)"
proof -
  have "\<exists>a. r1 = Ref a \<and> cache s1 i = Some a"
    using assms
    by (auto simp: calloc_def new_LazyObject_def Let_def
             split: option.splits prod.splits sum.splits if_splits)
  then show ?thesis by auto
qed

text \<open>
  Claim C2. Decoding the same handle id twice should give the same local proxy, for
  \<open>object\<close> and for \<open>function\<close> descriptors. The \<open>function\<close> branch returns a new
  \<open>LazyObject\<close> before the cache is written: two decodings of the \<open>function\<close>
  descriptor with id 5 give the distinct proxies at addresses 0 and 1, and the cache
  still has no entry for the id.
\<close>

theorem function_descriptor_not_cached:
  "\<exists>s1 s2. metaToValue_c (RFunction ''f'' 5 [] None) cstate0 = (Inr (Ref 0), s1)
     \<and> metaToValue_c (RFunction ''f'' 5 [] None) s1 = (Inr (Ref 1), s2)
     \<and> cache s2 5 = None"
  by (simp add: cstate0_def new_LazyObject_def calloc_def)

section \<open>Properties of the argument codecs\<close>

lemma wrapArgs_append:
  "wrapArgs n s V (pre @ post) =
     (case wrapArgs n s V pre of
        None \<Rightarrow> None
      | Some (Inl e) \<Rightarrow> Some (Inl e)
      | Some (Inr ms) \<Rightarrow>
          (case wrapArgs n s V post of
             None \<Rightarrow> None
           | Some (Inl e) \<Rightarrow> Some (Inl e)
           | Some (Inr ms') \<Rightarrow> Some (Inr (ms @ ms'))))"
  by (induction pre) (auto split: option.splits sum.splits)

lemma unwrapArgs_append:
  "unwrapArgs st (pre @ post) =
     (case unwrapArgs st pre of
        (Inl e, st') \<Rightarrow> (Inl e, st')
      | (Inr vs, st') \<Rightarrow>
          (case unwrapArgs st' post of
             (Inl e, st'') \<Rightarrow> (Inl e, st'')
           | (Inr ws, st'') \<Rightarrow> (Inr (vs @ ws), st'')))"
  by (induction pre arbitrary: st) (auto split: prod.splits sum.splits)

text \<open>
  Claim C7. An argument that is a live callable without \<open>returnValue\<close> makes the
  client-side encoder throw \<open>TypeError('Unsupported type: function')\<close> as soon as the
  arguments before it are encoded, and no depth bound lets \<open>wrapArgs\<close> return
  descriptors for such an argument list. On the server, a descriptor with the literal
  tag \<open>function\<close> makes \<open>unwrapArgs\<close> throw a new \<open>TypeError\<close> with the same message
  as soon as the descriptors before it are decoded, and \<open>unwrapArgs\<close> never returns
  values for such a list.
\<close>

theorem function_argument_rejected:
  assumes live: "is_live_callable (cheap s f)"
  shows "(wrapArgs (Suc n) s {} pre = Some (Inr ms) \<longrightarrow>
            wrapArgs (Suc n) s {} (pre @ Ref f # post)
              = Some (Inl (TypeError ''Unsupported type: function'')))
       \<and> (\<forall>k r. wrapArgs k s {} (pre @ Ref f # post) \<noteq> Some (Inr r))
       \<and> (unwrapArgs st pre' = (Inr vs, st') \<longrightarrow>
            (\<exists>st''. unwrapArgs st (pre' @ AFunction # post') = (Inl (Ref (snext st')), st'')
               \<and> sheap st'' (snext st')
                   = error_object ''TypeError'' ''Unsupported type: function''))
       \<and> (\<forall>r st''. unwrapArgs st (pre' @ AFunction # post') \<noteq> (Inr r, st''))"
proof -
  have one: "valueToMeta_c (Suc n) s {} (Ref f) = Some (Inl unsupported_function)" for n
    using live by (auto simp: is_live_callable_def split: ccell.splits option.splits)
  have never: "valueToMeta_c k s {} (Ref f) \<noteq> Some (Inr m)" for k m
    using one by (cases k) auto
  have a: "wrapArgs (Suc n) s {} pre = Some (Inr ms) \<longrightarrow>
            wrapArgs (Suc n) s {} (pre @ Ref f # post)
              = Some (Inl (TypeError ''Unsupported type: function''))"
    using one by (simp add: wrapArgs_append unsupported_function_def)
  have b: "\<forall>k r. wrapArgs k s {} (pre @ Ref f # post) \<noteq> Some (Inr r)"
    using never by (auto simp: wrapArgs_append split: option.splits sum.splits)
  have c: "unwrapArgs st pre' = (Inr vs, st') \<longrightarrow>
            (\<exists>st''. unwrapArgs st (pre' @ AFunction # post') = (Inl (Ref (snext st')), st'')
               \<and> sheap st'' (snext st')
                   = error_object ''TypeError'' ''Unsupported type: function'')"
    by (simp add: unwrapArgs_append throw_TypeError_def new_error_def salloc_def)
  have d: "\<forall>r st''. unwrapArgs st (pre' @ AFunction # post') \<noteq> (Inr r, st'')"
    by (auto simp: unwrapArgs_append throw_TypeError_def new_error_def salloc_def
             split: prod.splits sum.splits)
  show ?thesis using a b c d by blast
qed

theorem function_argument_rejected_witness:
  "wrapArgs 1 cstate_fn {} [Prim (Num 1), Ref 0, Prim (Num 2)]
     = Some (Inl (TypeError ''Unsupported type: function''))
   \<and> (\<exists>st''. unwrapArgs sstate0 [AValue (Num 1), AFunction, AValue (Num 2)] = (Inl (Ref 0), st'')
        \<and> sheap st'' 0 = error_object ''TypeError'' ''Unsupported type: function'')"
proof -
  have live: "is_live_callable (cheap cstate_fn 0)"
    by (simp add: cstate_fn_def is_live_callable_def)
  have enc: "wrapArgs (Suc 0) cstate_fn {} [Prim (Num 1)] = Some (Inr [AValue (Num 1)])"
    by simp
  have dec: "unwrapArgs sstate0 [AValue (Num 1)] = (Inr [Prim (Num 1)], sstate0)"
    by simp
  have nxt: "snext sstate0 = 0"
    by (simp add: sstate0_def)
  show ?thesis
    using function_argument_rejected [OF live, of 0 "[Prim (Num 1)]" "[AValue (Num 1)]"
            "[Prim (Num 2)]" sstate0 "[AValue (Num 1)]" "[Prim (Num 1)]" sstate0
            "[AValue (Num 2)]"] enc dec nxt
    by simp
qed

text \<open>
  Claim C9. A \<open>remote-object\<close> argument whose handle id the registry does not know
  should fail with a resolution error. \<open>unwrapArgs\<close> returns what the registry returns:
  for the unknown id 99 the decoded argument is \<open>undefined\<close>, nothing is thrown and the
  state is unchanged.
\<close>

theorem unknown_remote_object_is_undefined:
  "unwrapArgs sstate0 [ARemoteObject 99] = (Inr [Prim Undefined], sstate0)"
  by (simp add: registry_get_def sstate0_def)

section \<open>Properties of the command interpreter\<close>

lemma run_commands_append:
  "run_commands h (pre @ post) r o' st =
     (case run_commands h pre r o' st of
        (Inl e, st') \<Rightarrow> (Inl e, st')
      | (Inr (ret, opt), st') \<Rightarrow> run_commands h post ret opt st')"
  by (induction pre arbitrary: r o' st) (auto split: prod.splits sum.splits)

lemmas server_eval =
  exec_command_def mk_command_def sstate1_def host1_def host0_def registry_get_def
  handleMember_def read_prop_def find_prop_def window_object_def plain_object_def data_prop_def
  host_function_def bind_function_def salloc_def Let_def handleFunction_def unwrap_field_def
  callFunction_def apply_function_def name_text_def is_call_type_def sobject0_def
  new_error_def error_object_def throw_TypeError_def throwRPCError_def missing_text_def
  id_text_def quoted_def call_error_text_def handleConstructor_def first_value_def
  reply_callback_def rpc_error_object_def wrapped_error_object_def function_name_def
  push_reply_callback_def plainObjectToMeta_def call_fail_def get_hide_def bare_call_def
  show_nat.simps digit_char_def exotic_member_def builtin_member_def
  FUNCTION_PROTOTYPE_NAMES_def OBJECT_PROTOTYPE_NAMES_def is_arguments_def
  throw_RangeError_def to_text_def

subsection \<open>Missing remote objects\<close>

lemma throwRPCError_eq:
  "throwRPCError m st =
     (Inl (Ref (snext st)),
      st\<lparr>sheap := (sheap st)(snext st := rpc_error_object m), snext := Suc (snext st)\<rparr>)"
  by (simp add: throwRPCError_def salloc_def)

lemma rpc_error_props:
  "read_prop (rpc_error_object m) ''code'' = Prim (Str ''EBADRPC'')"
  "read_prop (rpc_error_object m) ''message'' = Prim (Str m)"
  "read_prop (rpc_error_object m) ''stack'' = Prim (Str (''Error: '' @ m))"
  "read_prop (rpc_error_object m) ''cause'' = Prim Undefined"
  by (simp_all add: rpc_error_object_def error_object_def read_prop_def find_prop_def
        data_prop_def)

lemma exec_missing:
  assumes missing: "is_nullish (registry_get st (cid c))"
  shows "ctype c = ''remote_object_get'' \<Longrightarrow>
           exec_command h c ret st = throwRPCError (missing_text ''get property'' c) st"
    and "ctype c = ''remote_object_set'' \<Longrightarrow>
           exec_command h c ret st = throwRPCError (missing_text ''set property'' c) st"
    and "ctype c = ''remote_object_call'' \<Longrightarrow>
           exec_command h c ret st = throwRPCError (missing_text ''call function'' c) st"
    and "ctype c = ''remote_object_constructor'' \<Longrightarrow>
           exec_command h c ret st = throwRPCError (missing_text ''call constructor'' c) st"
  using missing by (simp_all add: exec_command_def Let_def)

lemma get_member_data:
  assumes "find_prop (sheap st a) n = Some p" "\<not> pget p" "\<not> pset p"
          "exotic_member (kind (sheap st a)) n = None"
  shows "get_member h st (Ref a) n = (Inr (pvalue p), st)"
  using assms by (simp add: Let_def)

lemma get_member_rpc:
  assumes "sheap st a = rpc_error_object m"
  shows "get_member h st (Ref a) ''message'' = (Inr (Prim (Str m)), st)"
    and "get_member h st (Ref a) ''stack'' = (Inr (Prim (Str (''Error: '' @ m))), st)"
    and "get_member h st (Ref a) ''cause'' = (Inr (Prim Undefined), st)"
  using assms
  by (simp_all add: rpc_error_object_def error_object_def find_prop_def data_prop_def
        exotic_member_def builtin_member_def OBJECT_PROTOTYPE_NAMES_def Let_def)

lemma exceptionToMeta_rpc:
  assumes "sheap st a = rpc_error_object m"
  shows "exceptionToMeta (Suc n) h st (Ref a) =
           (Inr (RException (Prim (Str m)) (Prim (Str (''Error: '' @ m)))
                   (RValue (Prim Undefined))), st)"
  using get_member_rpc [OF assms, of h] by (simp add: exceptionToMeta_def)

text \<open>
  Claim C3. Let a \<open>remote_object_get\<close>, \<open>remote_object_set\<close>, \<open>remote_object_call\<close> or
  \<open>remote_object_constructor\<close> command be reached in a chain, with a handle id for
  which the registry has no object. Then the step throws a new error whose \<open>code\<close> is
  \<open>EBADRPC\<close> and whose message is \<open>Cannot <operation> '<name>' on missing remote object
  <id>\<close>; the commands after it have no effect, and the response of the chain is the
  \<open>exception\<close> descriptor of that error.
\<close>

theorem missing_remote_object_is_EBADRPC:
  assumes kind: "ctype c = ''remote_object_get'' \<and> what = ''get property''
               \<or> ctype c = ''remote_object_set'' \<and> what = ''set property''
               \<or> ctype c = ''remote_object_call'' \<and> what = ''call function''
               \<or> ctype c = ''remote_object_constructor'' \<and> what = ''call constructor''"
      and missing: "is_nullish (registry_get st (cid c))"
      and pre: "run_commands h pre (Prim Undefined) False st0 = (Inr (ret, opt), st)"
      and msg: "msg = ''Cannot '' @ what @ '' '' @ quoted (name_text (cname c))
                        @ '' on missing remote object '' @ id_text (cid c)"
  shows "\<exists>st'. run_commands h (pre @ c # post) (Prim Undefined) False st0
                  = (Inl (Ref (snext st)), st')
          \<and> read_prop (sheap st' (snext st)) ''code'' = Prim (Str ''EBADRPC'')
          \<and> read_prop (sheap st' (snext st)) ''message'' = Prim (Str msg)
          \<and> handle_commit (Suc n) h (pre @ c # post) st0
               = (Inr (RException (Prim (Str msg)) (Prim (Str (''Error: '' @ msg)))
                         (RValue (Prim Undefined))), st')"
proof -
  have ex: "exec_command h c ret st = throwRPCError msg st"
    using kind exec_missing [OF missing, of h ret] msg by (auto simp: missing_text_def)
  let ?st' = "st\<lparr>sheap := (sheap st)(snext st := rpc_error_object msg), snext := Suc (snext st)\<rparr>"
  have run: "run_commands h (pre @ c # post) (Prim Undefined) False st0
               = (Inl (Ref (snext st)), ?st')"
    using pre ex by (simp add: run_commands_append throwRPCError_eq)
  have cell: "sheap ?st' (snext st) = rpc_error_object msg" by simp
  have resp: "handle_commit (Suc n) h (pre @ c # post) st0
               = (Inr (RException (Prim (Str msg)) (Prim (Str (''Error: '' @ msg)))
                         (RValue (Prim Undefined))), ?st')"
    unfolding handle_commit_def run using exceptionToMeta_rpc [OF cell] by simp
  show ?thesis
    using run resp cell by (intro exI [of _ ?st']) (simp add: rpc_error_props)
qed

theorem missing_remote_object_is_EBADRPC_witness:
  "\<exists>st'. handle_commit 1 host1
            [(mk_command ''remote_object_set'')\<lparr>cname := Some ''title'', cid := Some 12,
                                                 cvalue := Some [AValue (Num 1)]\<rparr>, bare_call]
            sstate1
     = (Inr (RException
               (Prim (Str ''Cannot set property 'title' on missing remote object 12''))
               (Prim (Str ''Error: Cannot set property 'title' on missing remote object 12''))
               (RValue (Prim Undefined))), st')"
proof -
  let ?c = "(mk_command ''remote_object_set'')\<lparr>cname := Some ''title'', cid := Some 12,
                                                 cvalue := Some [AValue (Num 1)]\<rparr>"
  have kind: "ctype ?c = ''remote_object_get'' \<and> ''set property'' = ''get property''
               \<or> ctype ?c = ''remote_object_set'' \<and> ''set property'' = ''set property''
               \<or> ctype ?c = ''remote_object_call'' \<and> ''set property'' = ''call function''
               \<or> ctype ?c = ''remote_object_constructor'' \<and> ''set property'' = ''call constructor''"
    by (simp add: mk_command_def)
  have missing: "is_nullish (registry_get sstate1 (cid ?c))"
    by (simp add: mk_command_def registry_get_def sstate1_def)
  have pre: "run_commands host1 [] (Prim Undefined) False sstate1
               = (Inr (Prim Undefined, False), sstate1)"
    by simp
  have msg: "''Cannot set property 'title' on missing remote object 12''
             = ''Cannot '' @ ''set property'' @ '' '' @ quoted (name_text (cname ?c))
                 @ '' on missing remote object '' @ id_text (cid ?c)"
    by (simp add: mk_command_def quoted_def name_text_def id_text_def show_nat.simps
          digit_char_def)
  show ?thesis
    using missing_remote_object_is_EBADRPC [OF kind missing pre msg, of "[bare_call]" 0]
    by auto
qed

subsection \<open>Thrown values\<close>







subsection \<open>The optimize flag and unknown commands\<close>

lemma run_commands_flag:
  "run_commands h cmds r o' st = (Inr (ret, opt), st') \<Longrightarrow>
   opt = (if cmds = [] then o' else is_call_type (ctype (last cmds)))"
  by (induction cmds arbitrary: r o' st) (auto split: prod.splits sum.splits)

lemma plain_object_encoding:
  assumes "kind (sheap st a) = KPlain" "''callee'' \<notin> set (map pname (own (sheap st a)))"
  shows "valueToMeta_s (Suc n) h st (Ref a) opt =
           (if opt \<and> simple (sheap st a) then (Inr (RValue (Ref a)), st)
            else (Inr (RObject (ctor_name (sobjname st) (octor (sheap st a)))
                         (fst (registry_add st a))
                         (getObjectMembers (snd (registry_add st a)) False (own (sheap st a)))
                         (getObjectPrototype (snd (registry_add st a)) (protos (sheap st a)))),
                  snd (registry_add st a)))"
  using assms by (auto simp: is_arguments_def reference_meta_def Let_def split: prod.splits)

lemma function_encoding:
  assumes "is_callable_kind (kind (sheap st a))"
  shows "valueToMeta_s (Suc n) h st (Ref a) opt =
           (Inr (RFunction (ctor_name (sobjname st) (octor (sheap st a)))
                   (fst (registry_add st a))
                   (getObjectMembers (snd (registry_add st a)) True (own (sheap st a)))
                   (getObjectPrototype (snd (registry_add st a)) (protos (sheap st a)))),
            snd (registry_add st a))"
  using assms
  by (cases "kind (sheap st a)") (auto simp: reference_meta_def Let_def split: prod.splits)

text \<open>
  Claim C8. When the loop has run all commands of a chain, the flag passed to the
  encoder of the result is true exactly when the chain is not empty and the type of its
  last command is \<open>function_call\<close> or \<open>member_call\<close>. So a result that is a simple
  object (a plain object with the hidden value \<open>simple\<close>, not an \<open>arguments\<close> object)
  is answered by the \<open>value\<close> descriptor that carries the object itself when the last
  command is such a call, and by the full \<open>object\<close> descriptor, with constructor
  name, handle from the registry, members and prototype, when the last command is
  anything else; a plain object without the hidden value gets the full descriptor in
  both cases, and so does a function, as a \<open>function\<close> descriptor.
\<close>

theorem optimize_iff_last_is_call:
  assumes run: "run_commands h commands (Prim Undefined) False st = (Inr (ret, opt), st')"
  shows "opt = (commands \<noteq> [] \<and> (ctype (last commands) = ''function_call''
                                     \<or> ctype (last commands) = ''member_call''))
       \<and> handle_commit n h commands st =
           (case valueToMeta_s n h st' ret opt of
              (Inl error, st'') \<Rightarrow> exceptionToMeta n h st'' error
            | (Inr m, st'') \<Rightarrow> (Inr m, st''))
       \<and> (\<forall>a. ret = Ref a \<and> kind (sheap st' a) = KPlain
                \<and> ''callee'' \<notin> set (map pname (own (sheap st' a)))
            \<longrightarrow> handle_commit (Suc n) h commands st =
                  (if simple (sheap st' a) \<and> commands \<noteq> []
                      \<and> (ctype (last commands) = ''function_call''
                          \<or> ctype (last commands) = ''member_call'')
                   then (Inr (RValue (Ref a)), st')
                   else (Inr (RObject (ctor_name (sobjname st') (octor (sheap st' a)))
                                (fst (registry_add st' a))
                                (getObjectMembers (snd (registry_add st' a)) False
                                   (own (sheap st' a)))
                                (getObjectPrototype (snd (registry_add st' a))
                                   (protos (sheap st' a)))),
                         snd (registry_add st' a))))
       \<and> (\<forall>a. ret = Ref a \<and> is_callable_kind (kind (sheap st' a))
            \<longrightarrow> handle_commit (Suc n) h commands st =
                  (Inr (RFunction (ctor_name (sobjname st') (octor (sheap st' a)))
                          (fst (registry_add st' a))
                          (getObjectMembers (snd (registry_add st' a)) True
                             (own (sheap st' a)))
                          (getObjectPrototype (snd (registry_add st' a))
                             (protos (sheap st' a)))),
                   snd (registry_add st' a)))"
proof -
  have flag: "opt = (commands \<noteq> [] \<and> (ctype (last commands) = ''function_call''
                                          \<or> ctype (last commands) = ''member_call''))"
    using run_commands_flag [OF run] by (simp add: is_call_type_def)
  have resp: "handle_commit n h commands st =
           (case valueToMeta_s n h st' ret opt of
              (Inl error, st'') \<Rightarrow> exceptionToMeta n h st'' error
            | (Inr m, st'') \<Rightarrow> (Inr m, st''))" for n
    using run by (simp add: handle_commit_def)
  have obj: "handle_commit (Suc n) h commands st =
                  (if simple (sheap st' a) \<and> commands \<noteq> []
                      \<and> (ctype (last commands) = ''function_call''
                          \<or> ctype (last commands) = ''member_call'')
                   then (Inr (RValue (Ref a)), st')
                   else (Inr (RObject (ctor_name (sobjname st') (octor (sheap st' a)))
                                (fst (registry_add st' a))
                                (getObjectMembers (snd (registry_add st' a)) False
                                   (own (sheap st' a)))
                                (getObjectPrototype (snd (registry_add st' a))
                                   (protos (sheap st' a)))),
                         snd (registry_add st' a)))"
    if "ret = Ref a \<and> kind (sheap st' a) = KPlain
        \<and> ''callee'' \<notin> set (map pname (own (sheap st' a)))" for a
  proof -
    have "valueToMeta_s (Suc n) h st' ret opt =
           (if opt \<and> simple (sheap st' a) then (Inr (RValue (Ref a)), st')
            else (Inr (RObject (ctor_name (sobjname st') (octor (sheap st' a)))
                         (fst (registry_add st' a))
                         (getObjectMembers (snd (registry_add st' a)) False (own (sheap st' a)))
                         (getObjectPrototype (snd (registry_add st' a)) (protos (sheap st' a)))),
                  snd (registry_add st' a)))"
      using that plain_object_encoding [of st' a n h opt] by simp
    then show ?thesis
      using resp [of "Suc n"] flag by auto
  qed
  have func: "handle_commit (Suc n) h commands st =
                  (Inr (RFunction (ctor_name (sobjname st') (octor (sheap st' a)))
                          (fst (registry_add st' a))
                          (getObjectMembers (snd (registry_add st' a)) True
                             (own (sheap st' a)))
                          (getObjectPrototype (snd (registry_add st' a))
                             (protos (sheap st' a)))),
                   snd (registry_add st' a))"
    if "ret = Ref a \<and> is_callable_kind (kind (sheap st' a))" for a
    using that resp [of "Suc n"] function_encoding [of st' a n h opt] by simp
  show ?thesis
    using flag resp [of n] obj func by (intro conjI allI impI) blast+
qed

theorem optimize_iff_last_is_call_witness:
  "handle_commit 1 host2 [mk_command ''get_current_window'', call_getBounds] sstate2
     = (Inr (RValue (Ref 3)), sstate2)
   \<and> handle_commit 1 host2 [mk_command ''get_current_window'', get_bounds] sstate2
     = (Inr (RObject ''Object'' 4
               [\<lparr>mname = ''width'', menumerable = True, mwritable = True, mtype = ''get''\<rparr>,
                \<lparr>mname = ''height'', menumerable = True, mwritable = True, mtype = ''get''\<rparr>]
               None),
        sstate2\<lparr>reg_entries := [(4, 3), (3, 1)], reg_last := 4\<rparr>)"
proof -
  have simple_eval: "kind (sheap sstate2 3) = KPlain" "simple (sheap sstate2 3)"
      "''callee'' \<notin> set (map pname (own (sheap sstate2 3)))"
      "own (sheap sstate2 3) = [data_prop ''width'' (Prim (Num 800)) True,
                                 data_prop ''height'' (Prim (Num 600)) True]"
      "protos (sheap sstate2 3) = []" "octor (sheap sstate2 3) = ObjectCtor"
      "sobjname sstate2 = ''Object''"
    by (simp_all add: sstate2_def bounds_object_def plain_object_def data_prop_def sstate1_def)
  have reg: "registry_add sstate2 3
               = (4, sstate2\<lparr>reg_entries := [(4, 3), (3, 1)], reg_last := 4\<rparr>)"
    by (simp add: registry_add_def sstate2_def sstate1_def)
  have run1: "run_commands host2 [mk_command ''get_current_window'', call_getBounds]
                (Prim Undefined) False sstate2 = (Inr (Ref 3, True), sstate2)"
    by (simp add: host2_def sstate2_def call_getBounds_def server_eval)
  have run2: "run_commands host2 [mk_command ''get_current_window'', get_bounds]
                (Prim Undefined) False sstate2 = (Inr (Ref 3, False), sstate2)"
    by (simp add: host2_def sstate2_def get_bounds_def bounds_object_def server_eval)
  have last1: "ctype (last [mk_command ''get_current_window'', call_getBounds]) = ''member_call''"
    by (simp add: call_getBounds_def mk_command_def)
  have last2: "ctype (last [mk_command ''get_current_window'', get_bounds]) = ''member_get''"
    by (simp add: get_bounds_def mk_command_def)
  have members: "getObjectMembers s False [data_prop ''width'' (Prim (Num 800)) True,
                                           data_prop ''height'' (Prim (Num 600)) True]
                   = [\<lparr>mname = ''width'', menumerable = True, mwritable = True, mtype = ''get''\<rparr>,
                      \<lparr>mname = ''height'', menumerable = True, mwritable = True, mtype = ''get''\<rparr>]"
    for s
    by (simp add: getObjectMembers_def member_of_def data_prop_def)
  show ?thesis
    using optimize_iff_last_is_call [OF run1, of 0] optimize_iff_last_is_call [OF run2, of 0]
          simple_eval reg last1 last2 members
    by simp
qed

lemma exec_unknown:
  "ctype c \<notin> set command_types \<Longrightarrow> exec_command h c ret st = (Inr ret, st)"
  by (simp add: command_types_def exec_command_def)

lemma unknown_not_call:
  "ctype c \<notin> set command_types \<Longrightarrow> \<not> is_call_type (ctype c)"
  by (auto simp: command_types_def is_call_type_def)

text \<open>
  Claim C10. A command whose type is none of the \<open>case\<close> labels throws nothing and
  leaves the register and the state as they are; the flag \<open>optimize\<close> is false after
  it and the loop goes on with the next command. A chain made of such a command alone
  returns the \<open>value\<close> descriptor of \<open>undefined\<close>.
\<close>

theorem unknown_command_is_skipped:
  assumes unk: "ctype c \<notin> set command_types"
  shows "exec_command h c ret st = (Inr ret, st)
       \<and> run_commands h (c # post) ret opt st = run_commands h post ret False st
       \<and> (run_commands h pre r0 o0 st0 = (Inr (ret, opt), st) \<longrightarrow>
            run_commands h (pre @ c # post) r0 o0 st0 = run_commands h post ret False st)
       \<and> handle_commit (Suc n) h [c] st = (Inr (RValue (Prim Undefined)), st)"
  using exec_unknown [OF unk] unknown_not_call [OF unk]
  by (simp add: run_commands_append handle_commit_def)

theorem unknown_command_is_skipped_witness:
  "exec_command host1 (mk_command ''member_construct'') (Ref 1) sstate1 = (Inr (Ref 1), sstate1)
   \<and> run_commands host1 [mk_command ''get_current_window'', mk_command ''member_construct'']
        (Prim Undefined) False sstate1 = (Inr (Ref 1, False), sstate1)
   \<and> handle_commit 1 host1 [mk_command ''member_construct''] sstate1
        = (Inr (RValue (Prim Undefined)), sstate1)"
proof -
  have unk: "ctype (mk_command ''member_construct'') \<notin> set command_types"
    by (simp add: mk_command_def command_types_def)
  have pre: "run_commands host1 [mk_command ''get_current_window''] (Prim Undefined) False sstate1
               = (Inr (Ref 1, False), sstate1)"
    by (simp add: exec_command_def mk_command_def host1_def host0_def is_call_type_def)
  show ?thesis
    using unknown_command_is_skipped [OF unk, of host1 "Ref 1" sstate1 "[]" False
            "[mk_command ''get_current_window'']" "Prim Undefined" False sstate1 0] pre
    by simp
qed

section \<open>Cyclic object graphs\<close>

lemma wrapArgs_total:
  "(\<And>x. x \<in> set xs \<Longrightarrow> valueToMeta_c n s V x \<noteq> None) \<Longrightarrow> wrapArgs n s V xs \<noteq> None"
  by (induction xs) (auto split: option.splits sum.splits)

lemma wrapMembers_total:
  "(\<And>x. x \<in> snd ` set ps \<Longrightarrow> valueToMeta_c n s V x \<noteq> None) \<Longrightarrow> wrapMembers n s V ps \<noteq> None"
  by (induction ps) (auto split: option.splits sum.splits)

lemma card_unvisited:
  assumes "(a::nat) < N" "a \<notin> V" "card ({..<N} - V) < Suc n"
  shows "card ({..<N} - insert a V) < n"
proof -
  have fin: "finite ({..<N} - V)" by simp
  have mem: "a \<in> {..<N} - V" using assms by simp
  have "{..<N} - insert a V = ({..<N} - V) - {a}" by auto
  then have "card ({..<N} - insert a V) = card ({..<N} - V) - 1"
    using fin mem by simp
  moreover have "0 < card ({..<N} - V)" using fin mem by (auto simp: card_gt_0_iff)
  ultimately show ?thesis using assms(3) by linarith
qed

lemma valueToMeta_c_total:
  assumes bound: "\<And>a. is_walked (cheap s a) \<Longrightarrow> a < N"
      and unmarked: "\<And>a. \<not> has_returnValue (cheap s a)"
  shows "card ({..<N} - V) < n \<Longrightarrow> valueToMeta_c n s V v \<noteq> None"
proof (induction n arbitrary: V v)
  case 0
  then show ?case by simp
next
  case (Suc n)
  show ?case
  proof (cases v)
    case (Prim p)
    then show ?thesis by simp
  next
    case (Ref a)
    show ?thesis
    proof (cases "a \<in> V")
      case True
      then show ?thesis using Ref by simp
    next
      case False
      have rec: "\<And>x. is_walked (cheap s a) \<Longrightarrow> valueToMeta_c n s (insert a V) x \<noteq> None"
        using Suc.IH card_unvisited [OF bound False Suc.prems] by blast
      show ?thesis
      proof (cases "cheap s a")
        case (CArray els)
        then have "wrapArgs n s (insert a V) els \<noteq> None"
          using rec by (intro wrapArgs_total) (simp add: is_walked_def)
        then show ?thesis using Ref False CArray by (auto split: option.splits sum.splits)
      next
        case (CObject k ps)
        then have "wrapMembers n s (insert a V) ps \<noteq> None"
          using rec by (intro wrapMembers_total) (simp add: is_walked_def)
        then show ?thesis using Ref False CObject by (auto split: option.splits sum.splits)
      next
        case (CError ps)
        then have "wrapMembers n s (insert a V) (filter (\<lambda>(k, v). k \<noteq> ''stack'') ps) \<noteq> None"
          using rec by (intro wrapMembers_total) (simp add: is_walked_def)
        then show ?thesis using Ref False CError by (auto split: option.splits sum.splits)
      next
        case (CFunction rv)
        then show ?thesis using Ref False unmarked [of a]
          by (cases rv) (auto simp: has_returnValue_def)
      qed (use Ref False in \<open>auto split: sum.splits\<close>)
    qed
  qed
qed

lemma wrapArgs_nth:
  "wrapArgs n s V xs = Some (Inr ms) \<Longrightarrow>
   length ms = length xs \<and> (\<forall>i < length xs. valueToMeta_c n s V (xs ! i) = Some (Inr (ms ! i)))"
proof (induction xs arbitrary: ms)
  case Nil
  then show ?case by simp
next
  case (Cons x xs)
  then show ?case
    by (auto split: option.splits sum.splits simp: nth_Cons split: nat.splits)
qed

lemma wrapMembers_nth:
  "wrapMembers n s V ps = Some (Inr ms) \<Longrightarrow>
   map fst ms = map fst ps
   \<and> (\<forall>i < length ps. valueToMeta_c n s V (snd (ps ! i)) = Some (Inr (snd (ms ! i))))"
proof (induction ps arbitrary: ms)
  case Nil
  then show ?case by simp
next
  case (Cons p ps)
  then show ?case
    by (cases p) (auto split: option.splits sum.splits simp: nth_Cons split: nat.splits)
qed

lemma visited_is_null:
  "a \<in> V \<Longrightarrow> valueToMeta_c n s V (Ref a) = Some (Inr m) \<Longrightarrow> m = AValue Null"
  by (cases n) auto

text \<open>
  The client-side encoder. When the arrays and objects of the heap lie below an address
  \<open>N\<close> and no function carries \<open>returnValue\<close>, \<open>wrapArgs\<close> returns for every argument
  list at every depth bound above \<open>N\<close>; a reference to an array or object that is on
  the current path is encoded as the \<open>value\<close> descriptor of \<open>null\<close>, so the elements
  of an array and the properties of an object that refer to the array or object itself
  are \<open>null\<close> in its descriptor.
\<close>

lemma client_cycle_safety:
  assumes bound: "\<And>a. is_walked (cheap s a) \<Longrightarrow> a < N"
      and unmarked: "\<And>a. \<not> has_returnValue (cheap s a)"
  shows "(\<forall>n args. N < n \<longrightarrow> wrapArgs n s {} args \<noteq> None)
       \<and> (\<forall>n V a. a \<in> V \<longrightarrow> valueToMeta_c (Suc n) s V (Ref a) = Some (Inr (AValue Null)))
       \<and> (\<forall>n V a els ms.
             cheap s a = CArray els \<and> a \<notin> V
             \<and> valueToMeta_c n s V (Ref a) = Some (Inr (AArray ms))
             \<longrightarrow> length ms = length els
                 \<and> (\<forall>i < length els. els ! i = Ref a \<longrightarrow> ms ! i = AValue Null))
       \<and> (\<forall>n V a k ps name ms.
             cheap s a = CObject k ps \<and> a \<notin> V
             \<and> valueToMeta_c n s V (Ref a) = Some (Inr (AObject name ms))
             \<longrightarrow> map fst ms = map fst ps
                 \<and> (\<forall>i < length ps. snd (ps ! i) = Ref a \<longrightarrow> snd (ms ! i) = AValue Null))"
proof -
  have total: "wrapArgs n s {} args \<noteq> None" if "N < n" for n args
  proof (rule wrapArgs_total)
    fix x
    have "card ({..<N} - {}) < n" using that by simp
    then show "valueToMeta_c n s {} x \<noteq> None"
      using valueToMeta_c_total [OF bound unmarked] by blast
  qed
  have arr: "length ms = length els
             \<and> (\<forall>i < length els. els ! i = Ref a \<longrightarrow> ms ! i = AValue Null)"
    if c: "cheap s a = CArray els" and nv: "a \<notin> V"
      and r: "valueToMeta_c n s V (Ref a) = Some (Inr (AArray ms))"
    for n V a els ms
  proof (cases n)
    case 0
    then show ?thesis using r by simp
  next
    case (Suc k)
    then have w: "wrapArgs k s (insert a V) els = Some (Inr ms)"
      using c nv r by (auto split: option.splits sum.splits)
    show ?thesis
      using wrapArgs_nth [OF w] visited_is_null [of a "insert a V" k s] by auto
  qed
  have obj: "map fst ms = map fst ps
             \<and> (\<forall>i < length ps. snd (ps ! i) = Ref a \<longrightarrow> snd (ms ! i) = AValue Null)"
    if c: "cheap s a = CObject k ps" and nv: "a \<notin> V"
      and r: "valueToMeta_c n s V (Ref a) = Some (Inr (AObject name ms))"
    for n V a k ps name ms
  proof (cases n)
    case 0
    then show ?thesis using r by simp
  next
    case (Suc j)
    then have w: "wrapMembers j s (insert a V) ps = Some (Inr ms)"
      using c nv r by (auto split: option.splits sum.splits)
    show ?thesis
      using wrapMembers_nth [OF w] visited_is_null [of a "insert a V" j s] by auto
  qed
  have null: "valueToMeta_c (Suc n) s V (Ref a) = Some (Inr (AValue Null))" if "a \<in> V"
    for n V a
    using that by simp
  show ?thesis
  proof (intro conjI allI impI)
    fix n args assume "N < n"
    then show "wrapArgs n s {} args \<noteq> None" by (rule total)
  next
    fix n and V :: "addr set" and a assume "a \<in> V"
    then show "valueToMeta_c (Suc n) s V (Ref a) = Some (Inr (AValue Null))" by (rule null)
  next
    fix n V a els ms
    assume "cheap s a = CArray els \<and> a \<notin> V
            \<and> valueToMeta_c n s V (Ref a) = Some (Inr (AArray ms))"
    then show "length ms = length els" using arr by blast
  next
    fix n V a els ms i
    assume "cheap s a = CArray els \<and> a \<notin> V
            \<and> valueToMeta_c n s V (Ref a) = Some (Inr (AArray ms))"
       and "i < length els" "els ! i = Ref a"
    then show "ms ! i = AValue Null" using arr by blast
  next
    fix n V a k ps name ms
    assume "cheap s a = CObject k ps \<and> a \<notin> V
            \<and> valueToMeta_c n s V (Ref a) = Some (Inr (AObject name ms))"
    then show "map fst ms = map fst ps" using obj by blast
  next
    fix n V a k ps name ms i
    assume "cheap s a = CObject k ps \<and> a \<notin> V
            \<and> valueToMeta_c n s V (Ref a) = Some (Inr (AObject name ms))"
       and "i < length ps" "snd (ps ! i) = Ref a"
    then show "snd (ms ! i) = AValue Null" using obj by blast
  qed
qed

text \<open>
  The server-side encoder on the array that is its own element: whatever room the stack
  has, the walk over the elements uses it up and throws the \<open>RangeError\<close>.
\<close>

lemma cyclic_array_overflows:
  "valueToMeta_s n h sstate_cyc (Ref 1) opt = throw_RangeError stack_overflow sstate_cyc"
  by (induction n)
     (simp_all add: sstate_cyc_def sstate0_def plain_object_def throw_RangeError_def
        new_error_def salloc_def)

text \<open>
  Claim C6. Encoding a value that contains itself should return a descriptor with the
  \<open>value\<close> descriptor of \<open>null\<close> at the cyclic edge, in the renderer and in the
  browser. In the renderer it does: \<open>wrapArgs\<close> encodes the array that is its own
  element as an \<open>array\<close> descriptor with one \<open>null\<close>. In the browser the array case of
  \<open>valueToMeta\<close> maps over the elements with no record of the arrays it is inside: on
  the same array, with room for any number of nested calls, it throws the
  \<open>RangeError\<close> of the exhausted stack and returns no descriptor, and a chain that
  ends with this array is answered by the \<open>exception\<close> descriptor of that error.
\<close>

theorem server_cyclic_array_overflows:
  "wrapArgs 2 cstate_cyc {} [Ref 1] = Some (Inr [AArray [AValue Null]])
   \<and> fst (valueToMeta_s n host_cyc sstate_cyc (Ref 1) opt) = Inl (Ref 2)
   \<and> sheap (snd (valueToMeta_s n host_cyc sstate_cyc (Ref 1) opt)) 2
       = error_object ''RangeError'' ''Maximum call stack size exceeded''
   \<and> fst (handle_commit (Suc n) host_cyc [get_a] sstate_cyc)
       = Inr (RException (Prim (Str ''Maximum call stack size exceeded''))
                (Prim (Str ''RangeError: Maximum call stack size exceeded''))
                (RValue (Prim Undefined)))"
proof -
  have client: "wrapArgs 2 cstate_cyc {} [Ref 1] = Some (Inr [AArray [AValue Null]])"
    by (simp add: cstate_cyc_def cstate0_def numeral_2_eq_2)
  have over: "valueToMeta_s n host_cyc sstate_cyc (Ref 1) opt
                = throw_RangeError stack_overflow sstate_cyc" for n opt
    by (rule cyclic_array_overflows)
  have thrown: "throw_RangeError stack_overflow sstate_cyc
                  = (Inl (Ref 2), sstate_cyc\<lparr>sheap := (sheap sstate_cyc)
                        (2 := error_object ''RangeError'' ''Maximum call stack size exceeded''),
                      snext := 3\<rparr>)"
    by (simp add: throw_RangeError_def new_error_def salloc_def stack_overflow_def
          sstate_cyc_def sstate0_def)
  have run: "run_commands host_cyc [get_a] (Prim Undefined) False sstate_cyc
               = (Inr (Ref 1, False), sstate_cyc)"
    by (simp add: exec_command_def get_a_def mk_command_def host_cyc_def host0_def
          is_call_type_def)
  have resp: "fst (handle_commit (Suc n) host_cyc [get_a] sstate_cyc)
       = Inr (RException (Prim (Str ''Maximum call stack size exceeded''))
                (Prim (Str ''RangeError: Maximum call stack size exceeded''))
                (RValue (Prim Undefined)))"
  proof -
    let ?st = "sstate_cyc\<lparr>sheap := (sheap sstate_cyc)
                   (2 := error_object ''RangeError'' ''Maximum call stack size exceeded''),
                 snext := 3\<rparr>"
    have "handle_commit (Suc n) host_cyc [get_a] sstate_cyc
            = exceptionToMeta (Suc n) host_cyc ?st (Ref 2)"
      unfolding handle_commit_def run prod.case sum.case over thrown
      by simp
    then show ?thesis
      by (simp add: exceptionToMeta_def host_cyc_def sstate_cyc_def server_eval)
  qed
  show ?thesis
  proof (intro conjI)
    show "wrapArgs 2 cstate_cyc {} [Ref 1] = Some (Inr [AArray [AValue Null]])"
      by (rule client)
    show "fst (valueToMeta_s n host_cyc sstate_cyc (Ref 1) opt) = Inl (Ref 2)"
      unfolding over thrown by simp
    show "sheap (snd (valueToMeta_s n host_cyc sstate_cyc (Ref 1) opt)) 2
            = error_object ''RangeError'' ''Maximum call stack size exceeded''"
      unfolding over thrown by simp
    show "fst (handle_commit (Suc n) host_cyc [get_a] sstate_cyc)
            = Inr (RException (Prim (Str ''Maximum call stack size exceeded''))
                     (Prim (Str ''RangeError: Maximum call stack size exceeded''))
                     (RValue (Prim Undefined)))"
      by (rule resp)
  qed
qed

section \<open>Round trip of plain data\<close>

lemma decode_frame:
  "(metaToValue_c m s = (r, s') \<longrightarrow> cnext s \<le> cnext s' \<and> (\<forall>b < cnext s. cheap s' b = cheap s b))"
  "(metaToValues_c ms s = (rs, s'') \<longrightarrow> cnext s \<le> cnext s'' \<and> (\<forall>b < cnext s. cheap s'' b = cheap s b))"
proof (induction m s and ms s arbitrary: r s' and rs s'' rule: metaToValue_c_metaToValues_c.induct)
  case (8 name i members proto s)
  show ?case
    using decode_object_frame [of name i members proto s r s'] by blast
next
  case (2 members s)
  then show ?case
    by (fastforce simp: calloc_def split: prod.splits sum.splits)
next
  case (4 t s)
  then show ?case
    by (fastforce simp: calloc_def split: prod.splits sum.splits)
next
  case (7 message stack cause s)
  then show ?case
    by (fastforce split: prod.splits sum.splits)
next
  case (11 m ms s)
  then show ?case
    by (fastforce split: prod.splits sum.splits)
qed (auto simp: calloc_def new_LazyObject_def Let_def
          split: prod.splits sum.splits option.splits if_splits)


lemma below_mono:
  "below n s k w \<Longrightarrow> k \<le> k' \<Longrightarrow> below n s k' w"
proof (induction n arbitrary: w)
  case 0
  then show ?case by simp
next
  case (Suc n)
  show ?case
  proof (cases w)
    case (Prim p)
    then show ?thesis by simp
  next
    case (Ref b)
    then show ?thesis
      using Suc by (auto simp: list_all_iff split: ccell.splits)
  qed
qed

lemma below_stable:
  "below n s k w \<Longrightarrow> (\<forall>b < k. cheap s' b = cheap s b) \<Longrightarrow> below n s' k w"
proof (induction n arbitrary: w)
  case 0
  then show ?case by simp
next
  case (Suc n)
  show ?case
  proof (cases w)
    case (Prim p)
    then show ?thesis by simp
  next
    case (Ref b)
    then show ?thesis
      using Suc by (auto simp: list_all_iff split: ccell.splits)
  qed
qed

lemma same_data_stable:
  "same_data n st s v w \<Longrightarrow> below n s k w \<Longrightarrow> (\<forall>b < k. cheap s' b = cheap s b)
   \<Longrightarrow> same_data n st s' v w"
proof (induction n arbitrary: v w)
  case 0
  then show ?case by simp
next
  case (Suc n)
  show ?case
  proof (cases v)
    case (Prim p)
    then show ?thesis using Suc.prems by simp
  next
    case v: (Ref a)
    show ?thesis
    proof (cases w)
      case (Prim q)
      then show ?thesis using Suc.prems v by simp
    next
      case w: (Ref b)
      have bk: "b < k" using Suc.prems(2) w by simp
      then have same: "cheap s' b = cheap s b" using Suc.prems(3) by simp
      show ?thesis
      proof (cases "kind (sheap st a)")
        case (KArray xs)
        then obtain ys where ys: "cheap s b = CArray ys"
          and all2: "list_all2 (same_data n st s) xs ys"
          using Suc.prems(1) v w by (auto split: ccell.splits)
        have bel: "list_all (below n s k) ys"
          using Suc.prems(2) w ys by simp
        have "list_all2 (same_data n st s') xs ys"
          using all2 bel Suc.IH Suc.prems(3)
          by (auto simp: list_all2_conv_all_nth list_all_length)
        then show ?thesis using v w KArray ys same by simp
      qed (use Suc.prems v w same in \<open>auto split: ccell.splits\<close>)
    qed
  qed
qed


lemma round_trip_list:
  assumes elems: "\<And>x. x \<in> set xs \<Longrightarrow>
            \<exists>m. valueToMeta_s n h st x opt = (Inr m, st)
              \<and> (\<forall>s. \<exists>w s'. metaToValue_c m s = (Inr w, s')
                     \<and> same_data n st s' x w \<and> below n s' (cnext s') w)"
  shows "\<exists>ms. valuesToMeta_s n h st xs opt = (Inr ms, st)
           \<and> (\<forall>s. \<exists>ws s'. metaToValues_c ms s = (Inr ws, s')
                  \<and> list_all2 (same_data n st s') xs ws
                  \<and> list_all (below n s' (cnext s')) ws)"
  using elems
proof (induction xs)
  case Nil
  then show ?case by simp
next
  case (Cons x xs)
  from Cons.prems [of x] obtain m where
    m: "valueToMeta_s n h st x opt = (Inr m, st)"
    and dm: "\<And>s. \<exists>w s'. metaToValue_c m s = (Inr w, s')
                     \<and> same_data n st s' x w \<and> below n s' (cnext s') w"
    by auto
  from Cons.IH Cons.prems obtain ms where
    ms: "valuesToMeta_s n h st xs opt = (Inr ms, st)"
    and dms: "\<And>s. \<exists>ws s'. metaToValues_c ms s = (Inr ws, s')
                  \<and> list_all2 (same_data n st s') xs ws
                  \<and> list_all (below n s' (cnext s')) ws"
    by auto
  have enc: "valuesToMeta_s n h st (x # xs) opt = (Inr (m # ms), st)"
    using m ms by simp
  have dec: "\<exists>ws s'. metaToValues_c (m # ms) s = (Inr ws, s')
                  \<and> list_all2 (same_data n st s') (x # xs) ws
                  \<and> list_all (below n s' (cnext s')) ws" for s
  proof -
    from dm [of s] obtain w s1 where
      w: "metaToValue_c m s = (Inr w, s1)" "same_data n st s1 x w" "below n s1 (cnext s1) w"
      by blast
    from dms [of s1] obtain ws s2 where
      ws: "metaToValues_c ms s1 = (Inr ws, s2)" "list_all2 (same_data n st s2) xs ws"
          "list_all (below n s2 (cnext s2)) ws"
      by blast
    have frame: "cnext s1 \<le> cnext s2" "\<forall>b < cnext s1. cheap s2 b = cheap s1 b"
      using decode_frame(2) [of ms s1 "Inr ws" s2] ws(1) by simp_all
    have sx: "same_data n st s2 x w"
      using same_data_stable [OF w(2) w(3) frame(2)] .
    have bx: "below n s2 (cnext s2) w"
      using below_mono [OF below_stable [OF w(3) frame(2)] frame(1)] .
    have "metaToValues_c (m # ms) s = (Inr (w # ws), s2)"
      using w(1) ws(1) by simp
    then show ?thesis using sx bx ws(2,3) by simp
  qed
  show ?case using enc dec by blast
qed

lemma round_trip_below:
  "plain_data n st v \<Longrightarrow>
   \<exists>m. valueToMeta_s n h st v opt = (Inr m, st)
     \<and> (\<forall>s. \<exists>w s'. metaToValue_c m s = (Inr w, s')
            \<and> same_data n st s' v w \<and> below n s' (cnext s') w)"
proof (induction n arbitrary: v)
  case 0
  then show ?case by simp
next
  case (Suc n)
  show ?case
  proof (cases v)
    case (Prim p)
    then show ?thesis by simp
  next
    case v: (Ref a)
    show ?thesis
    proof (cases "kind (sheap st a)")
      case (KArray els)
      then have "list_all (plain_data n st) els"
        using Suc.prems v by simp
      then have "\<And>x. x \<in> set els \<Longrightarrow>
            \<exists>m. valueToMeta_s n h st x opt = (Inr m, st)
              \<and> (\<forall>s. \<exists>w s'. metaToValue_c m s = (Inr w, s')
                     \<and> same_data n st s' x w \<and> below n s' (cnext s') w)"
        using Suc.IH by (simp add: list_all_iff)
      from round_trip_list [OF this] obtain ms where
        ms: "valuesToMeta_s n h st els opt = (Inr ms, st)"
        and dms: "\<And>s. \<exists>ws s'. metaToValues_c ms s = (Inr ws, s')
                  \<and> list_all2 (same_data n st s') els ws
                  \<and> list_all (below n s' (cnext s')) ws"
        by blast
      have enc: "valueToMeta_s (Suc n) h st v opt = (Inr (RArray ms), st)"
        using v KArray ms by simp
      have dec: "\<exists>w s'. metaToValue_c (RArray ms) s = (Inr w, s')
                   \<and> same_data (Suc n) st s' v w \<and> below (Suc n) s' (cnext s') w" for s
      proof -
        from dms [of s] obtain ws s2 where
          ws: "metaToValues_c ms s = (Inr ws, s2)" "list_all2 (same_data n st s2) els ws"
              "list_all (below n s2 (cnext s2)) ws"
          by blast
        let ?s3 = "s2\<lparr>cheap := (cheap s2)(cnext s2 := CArray ws), cnext := Suc (cnext s2)\<rparr>"
        have d: "metaToValue_c (RArray ms) s = (Inr (Ref (cnext s2)), ?s3)"
          using ws(1) by (simp add: calloc_def)
        have frame: "\<forall>b < cnext s2. cheap ?s3 b = cheap s2 b" by simp
        have "list_all2 (same_data n st ?s3) els ws"
          using ws(2,3) same_data_stable [OF _ _ frame]
          by (auto simp: list_all2_conv_all_nth list_all_length)
        moreover have "list_all (below n ?s3 (Suc (cnext s2))) ws"
          using ws(3) below_mono [OF below_stable [OF _ frame], of n _ "Suc (cnext s2)"]
          by (auto simp: list_all_length)
        ultimately show ?thesis
          using d v KArray by simp
      qed
      show ?thesis using enc dec by blast
    next
      case (KBuffer bs)
      then show ?thesis
        using v by (simp add: calloc_def bufferToMeta_def metaToBuffer_def)
    next
      case (KDate t)
      then show ?thesis
        using v by (simp add: calloc_def)
    qed (use Suc.prems v in auto)
  qed
qed

text \<open>
  Claim C5. Let \<open>v\<close> be a primitive, a buffer, a date, or an array of such values,
  nested less than \<open>n\<close> deep. The server-side encoder with room for \<open>n\<close> nested calls
  returns a descriptor and leaves the state unchanged, and in every renderer state the
  materializer decodes that descriptor, without throwing, into a value equal to \<open>v\<close> as
  data: the same primitive, the same bytes, the same time, equal elements in the same
  order.
\<close>

theorem round_trip:
  assumes "plain_data n st v"
  shows "\<exists>m. valueToMeta_s n h st v opt = (Inr m, st)
           \<and> (\<forall>s. \<exists>w s'. metaToValue_c m s = (Inr w, s') \<and> same_data n st s' v w)"
  using round_trip_below [OF assms, of h opt] by blast

theorem round_trip_witness:
  "valueToMeta_s 2 host0 sstate_data (Ref 2) False
     = (Inr (RArray [RValue (Prim (Num 1)), RValue (Prim (Str ''a'')), RBuffer [1, 2, 255],
                     RDate 1500000000000, RValue (Prim Null), RValue (Prim Undefined),
                     RValue (Prim (Bool True))]), sstate_data)
   \<and> (\<exists>w s'. metaToValue_c
                (RArray [RValue (Prim (Num 1)), RValue (Prim (Str ''a'')), RBuffer [1, 2, 255],
                         RDate 1500000000000, RValue (Prim Null), RValue (Prim Undefined),
                         RValue (Prim (Bool True))]) cstate0 = (Inr w, s')
          \<and> same_data 2 sstate_data s' (Ref 2) w)"
proof -
  have pd: "plain_data 2 sstate_data (Ref 2)"
    by (simp add: sstate_data_def sstate0_def plain_object_def numeral_2_eq_2)
  have enc: "valueToMeta_s 2 host0 sstate_data (Ref 2) False
     = (Inr (RArray [RValue (Prim (Num 1)), RValue (Prim (Str ''a'')), RBuffer [1, 2, 255],
                     RDate 1500000000000, RValue (Prim Null), RValue (Prim Undefined),
                     RValue (Prim (Bool True))]), sstate_data)"
    by (simp add: sstate_data_def sstate0_def plain_object_def numeral_2_eq_2 bufferToMeta_def)
  show ?thesis
    using round_trip [OF pd, of host0 False] enc by auto
qed

end
